theory Spec2Isabelle
  imports Complex_Main "HOL-Library.Multiset"
begin

section \<open>Python values, errors and control flow\<close>

text \<open>
  The repository is Python. Its numbers are read as real numbers, with the rounding of
  floating-point operations made explicit where a statement depends on it; its
  dictionaries are association lists looked up with \<open>map_of\<close>, and every exception the
  code can raise is a value \<open>Inl e\<close> of the result.
\<close>

datatype error =
    KeyError | IndexError | TypeError | AttributeError | ValueError
  | ZeroDivisionError | JSONDecodeError | NonFinite

text \<open>The values that cross the JSON boundary and sit in the result dictionaries.\<close>

datatype json =
    JNull | JBool bool | JNum real | JStr string
  | JArr "json list" | JObj "(string \<times> json) list"

type_synonym pydict = "(string \<times> json) list"

text \<open>\<^verbatim>\<open>d[k]\<close> on a dictionary: a missing key raises KeyError.\<close>

definition dict_item :: "pydict \<Rightarrow> string \<Rightarrow> error + json" where
  "dict_item d k = (case map_of d k of None \<Rightarrow> Inl KeyError | Some v \<Rightarrow> Inr v)"

text \<open>\<^verbatim>\<open>d.get(k, default)\<close>.\<close>

definition dict_get :: "pydict \<Rightarrow> string \<Rightarrow> json \<Rightarrow> json" where
  "dict_get d k dflt = (case map_of d k of None \<Rightarrow> dflt | Some v \<Rightarrow> v)"


text \<open>A \<^verbatim>\<open>for\<close> loop that appends one value per element and stops at the first exception.\<close>

fun for_each :: "('a \<Rightarrow> error + 'b) \<Rightarrow> 'a list \<Rightarrow> error + 'b list" where
  "for_each f [] = Inr []"
| "for_each f (x # xs) =
     (case f x of
        Inl e \<Rightarrow> Inl e
      | Inr y \<Rightarrow> (case for_each f xs of Inl e \<Rightarrow> Inl e | Inr ys \<Rightarrow> Inr (y # ys)))"

text \<open>\<^verbatim>\<open>enumerate(xs)\<close>.\<close>

definition enumerate_py :: "'a list \<Rightarrow> (nat \<times> 'a) list" where
  "enumerate_py xs = zip [0..<length xs] xs"



section \<open>Floating point\<close>

text \<open>
  A Python float is an IEEE binary64 number, and each float operation returns the exact
  result rounded to the nearest number with a significand of 53 bits, a tie going to the
  even one. \<open>binary64\<close> is that rounding with the exponent left unbounded, so it is the
  machine's rounding wherever nothing overflows or falls into the subnormal range. The
  definitions of the bore profile and of the placeholder simulation round every operation
  with it; literals such as \<^verbatim>\<open>0.1\<close> are the rounded \<open>binary64 0.1\<close>.
\<close>

definition round_half_even :: "real \<Rightarrow> int" where
  "round_half_even x =
     (let f = \<lfloor>x\<rfloor>; d = x - of_int f
      in if d < 1 / 2 then f else if d > 1 / 2 then f + 1 else if even f then f else f + 1)"

definition pow2 :: "int \<Rightarrow> real" where
  "pow2 k = (if 0 \<le> k then 2 ^ nat k else 1 / 2 ^ nat (- k))"

definition binary64 :: "real \<Rightarrow> real" where
  "binary64 x =
     (if x = 0 then 0
      else (let e = \<lfloor>log 2 \<bar>x\<bar>\<rfloor>; ulp = pow2 (e - 52)
            in of_int (round_half_even (x / ulp)) * ulp))"



section \<open>Performance insights: \<^verbatim>\<open>evaluate_barrel_attributes\<close>\<close>













section \<open>Bore profile: \<^verbatim>\<open>generate_barrel_profile\<close>\<close>




text \<open>\<^verbatim>\<open>list(range(start, stop, step))\<close> for a positive step.\<close>

definition py_range :: "int \<Rightarrow> int \<Rightarrow> int \<Rightarrow> int list" where
  "py_range start stop step =
     map (\<lambda>k. start + int k * step) [0..<nat ((stop - start + step - 1) div step)]"



section \<open>Wall thickness: \<^verbatim>\<open>mock_thickness_map\<close>\<close>

text \<open>\<^verbatim>\<open>xs[i]\<close> for an index that is not negative: out of range raises IndexError.\<close>

definition list_item :: "'a list \<Rightarrow> nat \<Rightarrow> error + 'a" where
  "list_item xs i = (if i < length xs then Inr (xs ! i) else Inl IndexError)"

text \<open>The division of two integers, \<^verbatim>\<open>a / b\<close>, which raises when \<open>b\<close> is zero.\<close>

definition int_truediv :: "int \<Rightarrow> int \<Rightarrow> error + real" where
  "int_truediv a b = (if b = 0 then Inl ZeroDivisionError else Inr (real_of_int a / real_of_int b))"

text \<open>
  The outer factor of one sample. \<open>ratio\<close> is the value of \<^verbatim>\<open>i / (len(x_vals) - 1)\<close> in
  \<^verbatim>\<open>geometry.py\<close> and of \<^verbatim>\<open>i / max(1, len(x_vals) - 1)\<close> in \<^verbatim>\<open>barrel.py\<close>; it is evaluated
  only in the branches that use it, so only they can raise.
\<close>

definition outer_factor_of :: "string \<Rightarrow> real \<Rightarrow> real \<Rightarrow> (error + real) \<Rightarrow> error + real" where
  "outer_factor_of exterior_shape length1 x ratio =
     (if exterior_shape = ''Hourglass (waist tapered)'' then
        (let midpoint = 0.5 * length1;
             dist_from_center = \<bar>x - midpoint\<bar>
         in Inr (1.1 - 0.0005 * dist_from_center))
      else if exterior_shape = ''Bell-like Flare (tuned for resonance)'' then
        (case ratio of Inl e \<Rightarrow> Inl e | Inr fraction \<Rightarrow> Inr (1.0 + 0.2 * fraction))
      else if exterior_shape = ''Reverse Taper (bulged center)'' then
        (case ratio of Inl e \<Rightarrow> Inl e
         | Inr fraction \<Rightarrow> Inr (1.0 + 0.25 * (1 - (fraction - 0.5)\<^sup>2)))
      else if exterior_shape = ''Standard (parallel exterior)'' then Inr 1.05
      else if exterior_shape = ''User-Defined'' then
        (case ratio of Inl e \<Rightarrow> Inl e | Inr fraction \<Rightarrow> Inr (1.0 + 0.05 * fraction))
      else Inr 1.0)"

text \<open>The rest of the loop body: the outer diameter and the thickness of sample \<open>i\<close>.\<close>

definition thickness_at :: "real list \<Rightarrow> nat \<Rightarrow> (error + real) \<Rightarrow> error + real" where
  "thickness_at bore_diam_vals i factor =
     (case factor of Inl e \<Rightarrow> Inl e | Inr outer_factor \<Rightarrow>
      case list_item bore_diam_vals i of Inl e \<Rightarrow> Inl e | Inr d \<Rightarrow>
        (let outer_diam = d * outer_factor in Inr ((outer_diam - d) / 2.0)))"

text \<open>\<^verbatim>\<open>src/openwind/app/geometry.py\<close>, lines 42-73.\<close>

definition mock_thickness_map :: "real list \<Rightarrow> real list \<Rightarrow> string \<Rightarrow> error + real list" where
  "mock_thickness_map x_vals bore_diam_vals exterior_shape =
     (if x_vals = [] then Inr []
      else
        (let length1 = last x_vals - hd x_vals
         in for_each (\<lambda>(i, x).
              thickness_at bore_diam_vals i
                (outer_factor_of exterior_shape length1 x
                   (int_truediv (int i) (int (length x_vals) - 1))))
            (enumerate_py x_vals)))"

text \<open>\<^verbatim>\<open>src/openwind/barrel.py\<close>, lines 39-67.\<close>

definition barrel_mock_thickness_map :: "real list \<Rightarrow> real list \<Rightarrow> string \<Rightarrow> error + real list" where
  "barrel_mock_thickness_map x_vals bore_diam_vals exterior_shape =
     (let length1 = (if x_vals \<noteq> [] then last x_vals - hd x_vals else 0)
      in for_each (\<lambda>(i, x).
           thickness_at bore_diam_vals i
             (outer_factor_of exterior_shape length1 x
                (int_truediv (int i) (max 1 (int (length x_vals) - 1)))))
         (enumerate_py x_vals))"


text \<open>
  The exterior shapes of the application's drop-down, named so that proofs can treat them
  as atoms, and the three of them whose branch evaluates the fraction.
\<close>

definition hourglass :: string where
  "hourglass = ''Hourglass (waist tapered)''"

definition bell_flare :: string where
  "bell_flare = ''Bell-like Flare (tuned for resonance)''"

definition reverse_taper :: string where
  "reverse_taper = ''Reverse Taper (bulged center)''"

definition user_defined :: string where
  "user_defined = ''User-Defined''"

definition standard :: string where
  "standard = ''Standard (parallel exterior)''"

definition uses_fraction :: "string \<Rightarrow> bool" where
  "uses_fraction exterior_shape \<longleftrightarrow>
     exterior_shape = bell_flare \<or> exterior_shape = reverse_taper \<or> exterior_shape = user_defined"


section \<open>Unfolded outline: \<^verbatim>\<open>build_unfolded_bore_outline\<close>\<close>

text \<open>
  A bore segment is a dictionary from field names to numbers.
  \<^verbatim>\<open>src/openwind/app/geometry.py\<close>, lines 76-119.
\<close>

type_synonym segment = "(string \<times> real) list"

text \<open>\<^verbatim>\<open>seg.get(k, 0)\<close>.\<close>

definition seg_get :: "segment \<Rightarrow> string \<Rightarrow> real \<Rightarrow> real" where
  "seg_get seg k dflt = (case map_of seg k of None \<Rightarrow> dflt | Some v \<Rightarrow> v)"

text \<open>
  \<^verbatim>\<open>sorted(bore_data, key=lambda seg: seg["start_pos"])\<close>: the key of every segment is
  computed first, so a segment without the key raises KeyError; the sort is stable.
\<close>

definition sorted_by_start_pos :: "segment list \<Rightarrow> error + segment list" where
  "sorted_by_start_pos bore_data =
     (case for_each (\<lambda>seg. case map_of seg ''start_pos'' of
                             None \<Rightarrow> Inl KeyError | Some k \<Rightarrow> Inr (k, seg)) bore_data of
        Inl e \<Rightarrow> Inl e
      | Inr keyed \<Rightarrow> Inr (map snd (sort_key fst keyed)))"

text \<open>The two loops, each appending two points per segment.\<close>

definition top_edge_loop :: "segment list \<Rightarrow> (real \<times> real) list" where
  "top_edge_loop segs =
     foldl (\<lambda>top_edge seg.
        let x0 = seg_get seg ''start_pos'' 0;
            x1 = seg_get seg ''end_pos'' 0;
            d0 = seg_get seg ''start_dia'' 0;
            d1 = seg_get seg ''end_dia'' 0
        in (top_edge @ [(x0, d0 / 2.0)]) @ [(x1, d1 / 2.0)]) [] segs"

definition bot_edge_loop :: "segment list \<Rightarrow> (real \<times> real) list" where
  "bot_edge_loop segs =
     foldl (\<lambda>bot_edge seg.
        let x0 = seg_get seg ''start_pos'' 0;
            x1 = seg_get seg ''end_pos'' 0;
            d0 = seg_get seg ''start_dia'' 0;
            d1 = seg_get seg ''end_dia'' 0
        in (bot_edge @ [(x1, - (d1 / 2.0))]) @ [(x0, - (d0 / 2.0))]) [] segs"

definition build_unfolded_bore_outline :: "segment list \<Rightarrow> error + real list \<times> real list" where
  "build_unfolded_bore_outline bore_data =
     (if bore_data = [] then Inr ([], [])
      else
        (case sorted_by_start_pos bore_data of
           Inl e \<Rightarrow> Inl e
         | Inr sorted_segments \<Rightarrow>
             (let top_edge = top_edge_loop sorted_segments;
                  bot_edge = bot_edge_loop (rev sorted_segments);
                  outline_x = map fst top_edge @ map fst bot_edge;
                  outline_y = map snd top_edge @ map snd bot_edge
              in Inr (outline_x, outline_y))))"

text \<open>
  The outline in the words of the specification: per segment the two top-edge points,
  then, walking the segments in reverse, the two mirrored points with negated height.
\<close>

definition start_pos :: "segment \<Rightarrow> real" where
  "start_pos seg = seg_get seg ''start_pos'' 0"

definition top_points :: "segment \<Rightarrow> (real \<times> real) list" where
  "top_points seg =
     [(seg_get seg ''start_pos'' 0, seg_get seg ''start_dia'' 0 / 2),
      (seg_get seg ''end_pos'' 0, seg_get seg ''end_dia'' 0 / 2)]"

definition bottom_points :: "segment \<Rightarrow> (real \<times> real) list" where
  "bottom_points seg =
     [(seg_get seg ''end_pos'' 0, - (seg_get seg ''end_dia'' 0 / 2)),
      (seg_get seg ''start_pos'' 0, - (seg_get seg ''start_dia'' 0 / 2))]"

definition outline_points :: "segment list \<Rightarrow> (real \<times> real) list" where
  "outline_points segs = concat (map top_points segs) @ concat (map bottom_points (rev segs))"


section \<open>Comparison history: \<^verbatim>\<open>add_to_comparison\<close>\<close>

text \<open>
  \<^verbatim>\<open>src/openwind/app/callbacks.py\<close>, lines 191-231, and \<^verbatim>\<open>src/openwind/barrel.py\<close>, lines
  711-761: the two copies are the same text. The callback returns the new content of the
  comparison store and what the table container shows; Dash feeds the store back in as
  \<open>comparison_data\<close> at the next call.
\<close>

datatype cell = Td json | TdPer100 json

datatype view = Message string | Table "string list" "cell list list"

text \<open>\<^verbatim>\<open>str(n)\<close> for a natural number.\<close>

fun str_nat :: "nat \<Rightarrow> string" where
  "str_nat n =
     (if n < 10 then [''0123456789'' ! n]
      else str_nat (n div 10) @ [''0123456789'' ! (n mod 10)])"

declare str_nat.simps [simp del]

text \<open>\<^verbatim>\<open>prop_id.split(".")[0]\<close>.\<close>

definition triggered_id_of :: "string \<Rightarrow> string" where
  "triggered_id_of prop_id = takeWhile (\<lambda>c. c \<noteq> CHR ''.'') prop_id"

text \<open>Truth of an optional dictionary and of an optional string: None and empty are false.\<close>

definition truthy_dict :: "pydict option \<Rightarrow> bool" where
  "truthy_dict d \<longleftrightarrow> (case d of None \<Rightarrow> False | Some kvs \<Rightarrow> kvs \<noteq> [])"

definition truthy_str :: "string option \<Rightarrow> bool" where
  "truthy_str s \<longleftrightarrow> (case s of None \<Rightarrow> False | Some cs \<Rightarrow> cs \<noteq> [])"

definition comparison_entry :: "pydict \<Rightarrow> string \<Rightarrow> pydict" where
  "comparison_entry current_sim design_name =
     [(''name'', JStr design_name),
      (''f1'', dict_get current_sim ''f1'' (JNum 0)),
      (''cutoff'', dict_get current_sim ''cutoff'' (JNum 0)),
      (''resistance'', dict_get current_sim ''resistance'' (JNum 0)),
      (''brightness'', dict_get current_sim ''brightness'' (JNum 0)),
      (''harmonicity'', dict_get current_sim ''harmonicity'' (JNum 0))]"

text \<open>One row of the table: every cell reads a key of the entry and raises without it.\<close>

definition comparison_row :: "pydict \<Rightarrow> error + cell list" where
  "comparison_row c =
     (case dict_item c ''name'' of Inl e \<Rightarrow> Inl e | Inr name \<Rightarrow>
      case dict_item c ''f1'' of Inl e \<Rightarrow> Inl e | Inr f1 \<Rightarrow>
      case dict_item c ''cutoff'' of Inl e \<Rightarrow> Inl e | Inr cutoff \<Rightarrow>
      case dict_item c ''resistance'' of Inl e \<Rightarrow> Inl e | Inr resistance \<Rightarrow>
      case dict_item c ''brightness'' of Inl e \<Rightarrow> Inl e | Inr brightness \<Rightarrow>
      case dict_item c ''harmonicity'' of Inl e \<Rightarrow> Inl e | Inr harmonicity \<Rightarrow>
        Inr [Td name, Td f1, Td cutoff, TdPer100 resistance, Td brightness, Td harmonicity])"

definition table_header :: "string list" where
  "table_header =
     [''Design Name'', ''f'' @ [CHR 0xE2, CHR 0x82, CHR 0x81] @ '' (Hz)'', ''Cutoff (Hz)'',
      ''Resistance'', ''Brightness'', ''Harmonicity'']"

text \<open>The end of the callback, after the optional addition.\<close>

definition comparison_table :: "pydict list \<Rightarrow> error + pydict list \<times> view" where
  "comparison_table comparison_data =
     (if length comparison_data = 0 then
        Inr (comparison_data, Message ''No designs currently in comparison.'')
      else
        (case for_each comparison_row comparison_data of
           Inl e \<Rightarrow> Inl e
         | Inr rows \<Rightarrow> Inr (comparison_data, Table table_header rows)))"

definition add_to_comparison ::
  "string \<Rightarrow> pydict option \<Rightarrow> string option \<Rightarrow> pydict list option
     \<Rightarrow> error + pydict list \<times> view" where
  "add_to_comparison prop_id current_sim design_name comparison_data =
     (let triggered_id = triggered_id_of prop_id;
          comparison_data = (case comparison_data of None \<Rightarrow> [] | Some cd \<Rightarrow> cd)
      in if triggered_id = ''compare-mode-btn'' then
           (if \<not> truthy_dict current_sim then
              Inr (comparison_data, Message ''No simulation results to compare.'')
            else
              (let design_name =
                     (if \<not> truthy_str design_name
                      then ''Design '' @ str_nat (length comparison_data + 1)
                      else the design_name);
                   entry = comparison_entry (the current_sim) design_name;
                   comparison_data = comparison_data @ [entry];
                   comparison_data = drop (length comparison_data - 5) comparison_data
               in comparison_table comparison_data))
         else comparison_table comparison_data)"

text \<open>
  A sequence of additions: each is a click on the compare button with a simulation
  result and a design name, on the store the previous call returned.
\<close>

fun add_all :: "pydict list \<Rightarrow> (pydict option \<times> string option) list \<Rightarrow> error + pydict list" where
  "add_all comparison_data [] = Inr comparison_data"
| "add_all comparison_data ((current_sim, design_name) # rest) =
     (case add_to_comparison ''compare-mode-btn.n_clicks'' current_sim design_name
             (Some comparison_data) of
        Inl e \<Rightarrow> Inl e
      | Inr (comparison_data', shown) \<Rightarrow> add_all comparison_data' rest)"

text \<open>
  What the statements below expect of an entry, written apart from the callback: a
  comparison entry is a named snapshot of a result, that is the name followed by the five
  metrics of the result, a metric the result lacks being 0.
\<close>

definition snapshot :: "string \<Rightarrow> pydict \<Rightarrow> pydict" where
  "snapshot name result =
     (''name'', JStr name)
     # map (\<lambda>metric. (metric, case map_of result metric of Some v \<Rightarrow> v | None \<Rightarrow> JNum 0))
         [''f1'', ''cutoff'', ''resistance'', ''brightness'', ''harmonicity'']"

text \<open>
  The entries a sequence of additions is expected to create, oldest first: the snapshot of
  each result under the name given with it. An addition without a name is named after the
  number of entries retained when it is made, which is \<open>held\<close>.
\<close>

fun added_entries :: "nat \<Rightarrow> (pydict option \<times> string option) list \<Rightarrow> pydict list" where
  "added_entries held [] = []"
| "added_entries held ((current_sim, design_name) # rest) =
     snapshot
       (if truthy_str design_name then the design_name else ''Design '' @ str_nat (held + 1))
       (the current_sim)
     # added_entries (min 5 (held + 1)) rest"

text \<open>The names of the entries of a store, in order.\<close>

definition entry_names :: "pydict list \<Rightarrow> json option list" where
  "entry_names comparison_data = map (\<lambda>c. map_of c ''name'') comparison_data"

text \<open>The most recent five of a list, oldest first.\<close>

definition most_recent_5 :: "'a list \<Rightarrow> 'a list" where
  "most_recent_5 xs = drop (length xs - 5) xs"

text \<open>An entry of the store as the callback writes it: it has the six keys.\<close>

definition complete_entry :: "pydict \<Rightarrow> bool" where
  "complete_entry c \<longleftrightarrow>
     list_all (\<lambda>k. map_of c k \<noteq> None)
       [''name'', ''f1'', ''cutoff'', ''resistance'', ''brightness'', ''harmonicity'']"


text \<open>The row of a complete entry.\<close>

definition row_of :: "pydict \<Rightarrow> cell list" where
  "row_of c = [Td (the (map_of c ''name'')), Td (the (map_of c ''f1'')),
     Td (the (map_of c ''cutoff'')), TdPer100 (the (map_of c ''resistance'')),
     Td (the (map_of c ''brightness'')), Td (the (map_of c ''harmonicity''))]"


section \<open>The design store: \<^verbatim>\<open>save_design_to_memory\<close>\<close>

text \<open>
  \<^verbatim>\<open>src/openwind/barrel.py\<close>, lines 780-798, on the module's dictionary
  \<^verbatim>\<open>stored_designs\<close> (line 145); the copy in \<^verbatim>\<open>callbacks.py\<close> is the same text. The
  function takes the store and returns it with what it printed and its return value.
\<close>

type_synonym design_store = "string \<rightharpoonup> pydict"

definition save_design_to_memory ::
  "json \<Rightarrow> string option \<Rightarrow> json \<Rightarrow> json \<Rightarrow> json \<Rightarrow> json \<Rightarrow> json \<Rightarrow> json \<Rightarrow> json \<Rightarrow> json
     \<Rightarrow> design_store \<Rightarrow> design_store \<times> string list \<times> int" where
  "save_design_to_memory n_clicks design_name bore_shape exterior_shape entry_diam exit_diam
       length_mm resolution material sim_data stored_designs =
     (if \<not> truthy_str design_name then (stored_designs, [], 0)
      else
        (let design_dict =
               [(''bore_shape'', bore_shape), (''exterior_shape'', exterior_shape),
                (''entry_diam'', entry_diam), (''exit_diam'', exit_diam),
                (''length_mm'', length_mm), (''resolution'', resolution),
                (''material'', material), (''simulation'', sim_data)]
         in (stored_designs(the design_name \<mapsto> design_dict),
             [''Saved design: '' @ the design_name], 0)))"


section \<open>Library boundary: JSON text and data frames\<close>

text \<open>
  \<^verbatim>\<open>json.dumps\<close>, \<^verbatim>\<open>json.loads\<close> and the pandas \<^verbatim>\<open>DataFrame\<close> belong to libraries, not
  to the repository. They are modelled by their documented behaviour on the values this
  theory can express (string keys, finite numbers): a text that is JSON is identified with
  the value it denotes, so \<^verbatim>\<open>loads\<close> gives back what \<^verbatim>\<open>dumps\<close> was given, and any other
  text fails to parse.
\<close>

datatype json_text = Document json | Malformed string

definition json_dumps :: "json \<Rightarrow> json_text" where
  "json_dumps v = Document v"

definition json_loads :: "json_text \<Rightarrow> error + json" where
  "json_loads t = (case t of Document v \<Rightarrow> Inr v | Malformed s \<Rightarrow> Inl JSONDecodeError)"

text \<open>Truth of a value, as \<^verbatim>\<open>or\<close> and \<^verbatim>\<open>if\<close> test it.\<close>

definition truthy :: "json \<Rightarrow> bool" where
  "truthy v = (case v of JNull \<Rightarrow> False | JBool b \<Rightarrow> b | JNum r \<Rightarrow> r \<noteq> 0
                 | JStr s \<Rightarrow> s \<noteq> [] | JArr vs \<Rightarrow> vs \<noteq> [] | JObj kvs \<Rightarrow> kvs \<noteq> [])"

text \<open>\<^verbatim>\<open>v[k]\<close> with a string key: only a dictionary can be indexed so.\<close>

definition py_getitem :: "json \<Rightarrow> string \<Rightarrow> error + json" where
  "py_getitem v k = (case v of JObj d \<Rightarrow> dict_item d k | _ \<Rightarrow> Inl TypeError)"

text \<open>\<^verbatim>\<open>v.get(k, default)\<close>: only a dictionary has the method.\<close>

definition py_get :: "json \<Rightarrow> string \<Rightarrow> json \<Rightarrow> error + json" where
  "py_get v k dflt = (case v of JObj d \<Rightarrow> Inr (dict_get d k dflt) | _ \<Rightarrow> Inl AttributeError)"

text \<open>
  A data frame: named columns and rows of cells. \<^verbatim>\<open>to_dict(orient="records")\<close> gives one
  dictionary per row.
\<close>

record frame =
  columns :: "string list"
  rows :: "json list list"

definition to_dict_records :: "frame \<Rightarrow> pydict list" where
  "to_dict_records df = map (\<lambda>row. zip (columns df) row) (rows df)"

text \<open>
  The constructor on a list of dictionaries: the columns are the keys in the order they
  first appear, and a row lacks a value where its dictionary lacks the key (pandas stores
  NaN there; the model writes \<open>JNull\<close>).
\<close>

definition first_seen :: "string list \<Rightarrow> string list" where
  "first_seen ks = foldl (\<lambda>seen k. if k \<in> set seen then seen else seen @ [k]) [] ks"

definition frame_of_records :: "pydict list \<Rightarrow> frame" where
  "frame_of_records records =
     (let cols = first_seen (concat (map (map fst) records))
      in \<lparr>columns = cols,
          rows = map (\<lambda>r. map (\<lambda>c. case map_of r c of Some v \<Rightarrow> v | None \<Rightarrow> JNull) cols)
                   records\<rparr>)"

fun is_object :: "json \<Rightarrow> bool" where
  "is_object (JObj kvs) = True"
| "is_object v = False"

fun object_items :: "json \<Rightarrow> pydict" where
  "object_items (JObj kvs) = kvs"
| "object_items v = []"

text \<open>
  \<^verbatim>\<open>pd.DataFrame(data)\<close>: \<^verbatim>\<open>None\<close> gives the empty frame and a list of dictionaries the frame
  of those records. What pandas does with any other shape (a dictionary, a list of scalars
  or of lists, a scalar) is not fixed here: it is the parameter \<open>pandas_other\<close>.
\<close>

definition DataFrame :: "(json \<Rightarrow> error + frame) \<Rightarrow> json \<Rightarrow> error + frame" where
  "DataFrame pandas_other data =
     (case data of
        JNull \<Rightarrow> Inr \<lparr>columns = [], rows = []\<rparr>
      | JArr items \<Rightarrow>
          if list_all is_object items then Inr (frame_of_records (map object_items items))
          else pandas_other data
      | _ \<Rightarrow> pandas_other data)"

text \<open>
  \<^verbatim>\<open>df[["position", "diameter"]].values.tolist()\<close>: a missing column raises KeyError.
\<close>

definition column_index :: "string list \<Rightarrow> string \<Rightarrow> nat" where
  "column_index cols c = length (takeWhile (\<lambda>k. k \<noteq> c) cols)"

definition select_values :: "frame \<Rightarrow> string list \<Rightarrow> error + json list list" where
  "select_values df cols =
     (if list_all (\<lambda>c. c \<in> set (columns df)) cols
      then Inr (map (\<lambda>row. map (\<lambda>c. row ! column_index (columns df) c) cols) (rows df))
      else Inl KeyError)"

text \<open>A frame as pandas keeps it: distinct column names, every row as wide as the header.\<close>

definition frame_ok :: "frame \<Rightarrow> bool" where
  "frame_ok df \<longleftrightarrow>
     distinct (columns df) \<and> list_all (\<lambda>row. length row = length (columns df)) (rows df)"


section \<open>Session codec: \<^verbatim>\<open>save_session\<close> and \<^verbatim>\<open>load_session\<close>\<close>

text \<open>
  \<^verbatim>\<open>src/openwind_ui_app_final/modules/session_manager.py\<close>. The clock's
  \<^verbatim>\<open>datetime.now().isoformat()\<close> is the argument \<open>now\<close>.
\<close>

definition save_session :: "string \<Rightarrow> frame \<Rightarrow> json \<Rightarrow> json \<Rightarrow> json \<Rightarrow> json \<Rightarrow> json_text" where
  "save_session now bore_df temperature humidity material_props notes =
     (let session = JObj
            [(''timestamp'', JStr now),
             (''notes'', notes),
             (''bore_profile'', JArr (map JObj (to_dict_records bore_df))),
             (''environment'', JObj [(''temperature'', temperature), (''humidity'', humidity)]),
             (''material'', if truthy material_props then material_props else JObj [])]
      in json_dumps session)"

definition load_session ::
  "(json \<Rightarrow> error + frame) \<Rightarrow> json_text \<Rightarrow> error + frame \<times> json \<times> json \<times> json \<times> json" where
  "load_session pandas_other json_string =
     (case json_loads json_string of Inl e \<Rightarrow> Inl e | Inr session_data \<Rightarrow>
      case py_getitem session_data ''bore_profile'' of Inl e \<Rightarrow> Inl e | Inr profile \<Rightarrow>
      case DataFrame pandas_other profile of Inl e \<Rightarrow> Inl e | Inr bore_df \<Rightarrow>
      case py_getitem session_data ''environment'' of Inl e \<Rightarrow> Inl e | Inr env \<Rightarrow>
      case py_get env ''temperature'' (JNum 22) of Inl e \<Rightarrow> Inl e | Inr temperature \<Rightarrow>
      case py_getitem session_data ''environment'' of Inl e \<Rightarrow> Inl e | Inr env2 \<Rightarrow>
      case py_get env2 ''humidity'' (JNum 50) of Inl e \<Rightarrow> Inl e | Inr humidity \<Rightarrow>
      case py_get session_data ''material'' (JObj []) of Inl e \<Rightarrow> Inl e | Inr material_props \<Rightarrow>
      case py_get session_data ''notes'' (JStr []) of Inl e \<Rightarrow> Inl e | Inr notes \<Rightarrow>
        Inr (bore_df, temperature, humidity, material_props, notes))"


section \<open>Simulation adapters\<close>

text \<open>
  \<^verbatim>\<open>random.uniform(a, b)\<close> is \<^verbatim>\<open>a + (b - a) * random()\<close>; the generator is the sequence
  \<open>rnd\<close> of the values \<^verbatim>\<open>random()\<close> returns, each at least 0 and below 1.
\<close>

definition uniform :: "real \<Rightarrow> real \<Rightarrow> real \<Rightarrow> real" where
  "uniform a b u = binary64 (a + binary64 (binary64 (b - a) * u))"

definition unit_interval :: "(nat \<Rightarrow> real) \<Rightarrow> bool" where
  "unit_interval rnd \<longleftrightarrow> (\<forall>k. 0 \<le> rnd k \<and> rnd k < 1)"

text \<open>
  \<^verbatim>\<open>round(x, n)\<close>: the float nearest to \<open>x\<close> rounded to \<open>n\<close> decimals, a tie going to the
  even neighbour.
\<close>

definition py_round :: "real \<Rightarrow> nat \<Rightarrow> real" where
  "py_round x n = binary64 (of_int (round_half_even (x * 10 ^ n)) / 10 ^ n)"

text \<open>The division of two floats, which raises when the divisor is zero.\<close>

definition float_truediv :: "real \<Rightarrow> real \<Rightarrow> error + real" where
  "float_truediv a b = (if b = 0 then Inl ZeroDivisionError else Inr (binary64 (a / b)))"

text \<open>
  \<^verbatim>\<open>src/openwind/app/simulation.py\<close>, lines 10-35 (the copy in \<^verbatim>\<open>barrel.py\<close> is the same
  text). The draws are taken in the order of the source: one for \<^verbatim>\<open>f1\<close>, one for the
  resistance, one per frequency for the impedance, then harmonicity and brightness.
\<close>

definition run_mock_simulation ::
  "(nat \<Rightarrow> real) \<Rightarrow> json \<Rightarrow> json \<Rightarrow> json \<Rightarrow> error + pydict" where
  "run_mock_simulation rnd profile_points material thickness =
     (let f1 = py_round (binary64 (450 + uniform (- 30) 30 (rnd 0))) 2;
          cutoff = py_round (binary64 (f1 * binary64 2.2)) 2;
          resistance = py_round (uniform 20 80 (rnd 1)) 2;
          freq = py_range 100 2000 50;
          impedance = map (\<lambda>i. uniform 0.5 1.5 (rnd (2 + i))) [0..<length freq]
      in case for_each (\<lambda>imp. float_truediv 1.0 imp) impedance of
           Inl e \<Rightarrow> Inl e
         | Inr admittance \<Rightarrow>
             (let harmonicity =
                    py_round (uniform (binary64 0.7) (binary64 0.95) (rnd (2 + length freq))) 3;
                  brightness =
                    py_round (uniform (binary64 0.3) (binary64 0.8) (rnd (3 + length freq))) 3
              in Inr [(''f1'', JNum f1),
                      (''cutoff'', JNum cutoff),
                      (''resistance'', JNum resistance),
                      (''freq'', JArr (map (\<lambda>f. JNum (of_int f)) freq)),
                      (''impedance_curve'', JArr (map JNum impedance)),
                      (''admittance_curve'', JArr (map JNum admittance)),
                      (''harmonicity'', JNum harmonicity),
                      (''brightness'', JNum brightness)]))"


text \<open>\<^verbatim>\<open>np.linspace(start, stop, num)\<close> and \<^verbatim>\<open>np.angle\<close> of a real number.\<close>

definition linspace :: "real \<Rightarrow> real \<Rightarrow> nat \<Rightarrow> real list" where
  "linspace start stop num = map (\<lambda>i. start + real i * ((stop - start) / real (num - 1))) [0..<num]"

definition angle :: "real \<Rightarrow> real" where
  "angle x = (if x < 0 then pi else 0)"

text \<open>
  \<^verbatim>\<open>src/openwind_ui_app_final/modules/openwind_adapter.py\<close>. The engine's \<^verbatim>\<open>simulate\<close> is
  outside the repository: it is the parameter \<open>simulate\<close>, called with the bore and the
  temperature, which raises or returns a record the function does not use. The sine and
  \<open>\<pi>\<close> are the exact ones here; the statements about this function read the keys and the
  lengths of what it returns, and the first sample of a range that starts at 0, where the
  sine is 0 in floating point as well.
\<close>

definition run_impedance_simulation ::
  "(json list list \<Rightarrow> json \<Rightarrow> error + unit) \<Rightarrow> frame \<Rightarrow> json \<Rightarrow> json \<Rightarrow> real \<times> real
     \<Rightarrow> error + pydict" where
  "run_impedance_simulation simulate bore_df temperature material_props freq_range =
     (case select_values bore_df [''position'', ''diameter''] of Inl e \<Rightarrow> Inl e | Inr main_bore \<Rightarrow>
      case simulate main_bore temperature of Inl e \<Rightarrow> Inl e | Inr rec \<Rightarrow>
        (let f = linspace (fst freq_range) (snd freq_range) 500;
             impedance_mag = map (\<lambda>x. \<bar>sin (2 * pi * x / 1500)\<bar> * 1000000) f;
             impedance_phase = map (\<lambda>x. angle (sin (2 * pi * x / 1500)) * 180 / pi) f
         in Inr [(''frequency'', JArr (map JNum f)),
                 (''magnitude'', JArr (map JNum impedance_mag)),
                 (''phase'', JArr (map JNum impedance_phase))]))"

text \<open>
  The invariant of an acoustic result, on the three curves of a result dictionary named
  by their keys: they are arrays of numbers of one length, no impedance is zero, and each
  admittance times its impedance is within \<open>tol\<close> of 1 (exactly 1 when \<open>tol\<close> is 0).
\<close>

fun number_of :: "json \<Rightarrow> real option" where
  "number_of (JNum r) = Some r"
| "number_of v = None"

definition curve :: "pydict \<Rightarrow> string \<Rightarrow> real list option" where
  "curve result k =
     (case map_of result k of
        Some (JArr vs) \<Rightarrow> if list_all (\<lambda>v. number_of v \<noteq> None) vs
                           then Some (map (\<lambda>v. the (number_of v)) vs) else None
      | _ \<Rightarrow> None)"

definition curves_invariant :: "real \<Rightarrow> real list \<Rightarrow> real list \<Rightarrow> real list \<Rightarrow> bool" where
  "curves_invariant tol frequency_axis impedance admittance \<longleftrightarrow>
     length frequency_axis = length impedance \<and> length impedance = length admittance
     \<and> list_all (\<lambda>z. z \<noteq> 0) impedance
     \<and> list_all2 (\<lambda>y z. \<bar>y * z - 1\<bar> \<le> tol) admittance impedance"

definition result_invariant :: "real \<Rightarrow> string \<Rightarrow> string \<Rightarrow> string \<Rightarrow> pydict \<Rightarrow> bool" where
  "result_invariant tol frequency_key impedance_key admittance_key result =
     (case (curve result frequency_key, curve result impedance_key, curve result admittance_key) of
        (Some f, Some z, Some y) \<Rightarrow> curves_invariant tol f z y
      | _ \<Rightarrow> False)"



section \<open>Optimizer cost: \<^verbatim>\<open>BarrelOptimizer._cost_function\<close>\<close>

text \<open>
  \<^verbatim>\<open>src/openwind/deepseek.py\<close>, lines 292-340. The target impedance is \<^verbatim>\<open>None\<close>, a Python
  list, or a numpy array like the curves the class itself computes.
\<close>

datatype target = NoTarget | ListTarget "real list" | ArrayTarget "real list"

record optimizer =
  target_f1 :: real
  target_impedance :: target

definition BarrelOptimizer :: "real \<Rightarrow> target \<Rightarrow> optimizer" where
  "BarrelOptimizer tf ti = \<lparr>target_f1 = tf, target_impedance = ti\<rparr>"

record geometry =
  geometry_entry_diam :: real
  geometry_exit_diam :: real
  geometry_length_mm :: real

record simulation =
  result_f1 :: real
  result_impedance_curve :: "real list"
  result_frequencies :: "real list"

text \<open>
  \<^verbatim>\<open>if self.target_impedance:\<close>. \<^verbatim>\<open>None\<close> and the empty list are false and other lists
  true; numpy gives an array of one element the truth of that element, and raises
  ValueError for an array of more than one (an empty array is false in numpy before 2.2).
\<close>

definition target_truth :: "target \<Rightarrow> error + bool" where
  "target_truth t =
     (case t of
        NoTarget \<Rightarrow> Inr False
      | ListTarget vs \<Rightarrow> Inr (vs \<noteq> [])
      | ArrayTarget vs \<Rightarrow>
          (case vs of [] \<Rightarrow> Inr False | [v] \<Rightarrow> Inr (v \<noteq> 0) | _ \<Rightarrow> Inl ValueError))"

fun target_values :: "target \<Rightarrow> real list" where
  "target_values NoTarget = []"
| "target_values (ListTarget vs) = vs"
| "target_values (ArrayTarget vs) = vs"

text \<open>
  The difference of two one-dimensional arrays under numpy's broadcasting: equal lengths,
  or one of them of length 1; anything else raises ValueError.
\<close>

definition broadcast_sub :: "real list \<Rightarrow> real list \<Rightarrow> error + real list" where
  "broadcast_sub xs ys =
     (if length xs = length ys then Inr (map (\<lambda>(x, y). x - y) (zip xs ys))
      else if length ys = 1 then Inr (map (\<lambda>x. x - hd ys) xs)
      else if length xs = 1 then Inr (map (\<lambda>y. hd xs - y) ys)
      else Inl ValueError)"

text \<open>
  \<^verbatim>\<open>np.mean\<close>; of no values it is NaN, which is no real number and is reported as
  \<open>NonFinite\<close>. So is the quotient by a zero target frequency, which numpy makes infinite
  or NaN.
\<close>

definition np_mean :: "real list \<Rightarrow> error + real" where
  "np_mean xs = (if xs = [] then Inl NonFinite else Inr (sum_list xs / real (length xs)))"

definition cost_function ::
  "optimizer \<Rightarrow> (geometry \<Rightarrow> error + simulation) \<Rightarrow> real list \<Rightarrow> error + real" where
  "cost_function self run_openwind_simulation params =
     (case params of
        [entry, exit_d, len] \<Rightarrow>
          (let geom = \<lparr>geometry_entry_diam = entry, geometry_exit_diam = exit_d,
                       geometry_length_mm = len\<rparr>
           in case run_openwind_simulation geom of Inl e \<Rightarrow> Inl e | Inr result \<Rightarrow>
              if target_f1 self = 0 then Inl NonFinite
              else
                (let f1_error = \<bar>result_f1 result - target_f1 self\<bar> / target_f1 self
                 in case target_truth (target_impedance self) of
                      Inl e \<Rightarrow> Inl e
                    | Inr False \<Rightarrow> Inr (0.7 * f1_error + 0.3 * 0)
                    | Inr True \<Rightarrow>
                        (case broadcast_sub (result_impedance_curve result)
                                (target_values (target_impedance self)) of
                           Inl e \<Rightarrow> Inl e
                         | Inr diff \<Rightarrow>
                             (case np_mean (map (\<lambda>d. d\<^sup>2) diff) of
                                Inl e \<Rightarrow> Inl e
                              | Inr impedance_error \<Rightarrow>
                                  Inr (0.7 * f1_error + 0.3 * impedance_error)))))
      | _ \<Rightarrow> Inl ValueError)"


section \<open>Test doubles and observations\<close>

text \<open>
  Concrete stand-ins for the two library parameters, used where a statement needs a
  closed input: an engine whose \<^verbatim>\<open>simulate\<close> returns, a pandas that rejects every shape it
  is asked about, and an OpenWind run that returns a curve of 100 points.
\<close>

definition engine_returns :: "json list list \<Rightarrow> json \<Rightarrow> error + unit" where
  "engine_returns main_bore temperature = Inr ()"

definition pandas_rejects :: "json \<Rightarrow> error + frame" where
  "pandas_rejects data = Inl ValueError"

definition openwind_returns :: "geometry \<Rightarrow> error + simulation" where
  "openwind_returns geom =
     Inr \<lparr>result_f1 = 450, result_impedance_curve = replicate 100 2,
          result_frequencies = linspace 100 2000 100\<rparr>"

definition two_row_bore :: frame where
  "two_row_bore = \<lparr>columns = [''position'', ''diameter''],
                   rows = [[JNum 0, JNum 0.015], [JNum 0.066, JNum 0.014]]\<rparr>"

text \<open>What a caller can observe of a returned result: its keys, whether the invariant
  holds of three of its curves, and the first value of a curve.\<close>

definition returned_keys :: "error + pydict \<Rightarrow> error + string list" where
  "returned_keys r = map_sum id (map fst) r"

definition returned_invariant ::
  "real \<Rightarrow> string \<Rightarrow> string \<Rightarrow> string \<Rightarrow> error + pydict \<Rightarrow> error + bool" where
  "returned_invariant tol frequency_key impedance_key admittance_key r =
     map_sum id (result_invariant tol frequency_key impedance_key admittance_key) r"

definition returned_first :: "string \<Rightarrow> error + pydict \<Rightarrow> error + real option" where
  "returned_first k r = map_sum id (\<lambda>result. map_option hd (curve result k)) r"


section \<open>Theorems\<close>

subsection \<open>Floating point\<close>

lemma round_half_even_error: "\<bar>of_int (round_half_even x) - x\<bar> \<le> 1 / 2"
proof -
  have "of_int \<lfloor>x\<rfloor> \<le> x" "x < of_int \<lfloor>x\<rfloor> + 1" by linarith+
  then show ?thesis by (auto simp: round_half_even_def Let_def)
qed

lemma pow2_powr: "pow2 k = 2 powr (of_int k)"
proof (cases "0 \<le> k")
  case True
  then show ?thesis by (simp add: pow2_def powr_realpow [symmetric])
next
  case False
  then have "(2::real) powr (of_int k) = 1 / 2 powr (real (nat (- k)))"
    by (simp add: powr_minus_divide [symmetric])
  also have "\<dots> = 1 / 2 ^ nat (- k)" by (simp add: powr_realpow)
  finally show ?thesis using False by (simp add: pow2_def)
qed

lemma pow2_pos: "0 < pow2 k"
  by (simp add: pow2_powr)

lemma pow2_add: "pow2 (a + b) = pow2 a * pow2 b"
  by (simp add: pow2_powr powr_add)

lemma floor_log2:
  assumes "0 < x" "pow2 e \<le> x" "x < pow2 (e + 1)"
  shows "\<lfloor>log 2 x\<rfloor> = e"
proof -
  have "of_int e \<le> log 2 x" using assms by (simp add: pow2_powr le_log_iff)
  moreover have "log 2 x < of_int e + 1"
    using assms by (simp add: pow2_powr log_less_iff)
  ultimately show ?thesis by linarith
qed

lemma pow2_floor_log2:
  assumes "0 < x"
  shows "pow2 \<lfloor>log 2 x\<rfloor> \<le> x"
  using le_log_iff [of 2 x "of_int \<lfloor>log 2 x\<rfloor>"] assms by (simp add: pow2_powr)

text \<open>The rounding of a number whose binary exponent is known.\<close>

lemma binary64_normal:
  assumes "pow2 e \<le> \<bar>x\<bar>" "\<bar>x\<bar> < pow2 (e + 1)"
  shows "binary64 x = of_int (round_half_even (x / pow2 (e - 52))) * pow2 (e - 52)"
proof -
  have pos: "0 < \<bar>x\<bar>" using assms(1) pow2_pos [of e] by linarith
  then have "x \<noteq> 0" by simp
  moreover have "\<lfloor>log 2 \<bar>x\<bar>\<rfloor> = e" using pos assms by (rule floor_log2)
  ultimately show ?thesis by (simp add: binary64_def Let_def)
qed

text \<open>The relative error of one rounding is at most \<open>2\<^sup>-\<^sup>5\<^sup>3\<close>.\<close>

lemma binary64_error: "\<bar>binary64 x - x\<bar> \<le> \<bar>x\<bar> / 2 ^ 53"
proof (cases "x = 0")
  case True
  then show ?thesis by (simp add: binary64_def)
next
  case False
  define e where "e = \<lfloor>log 2 \<bar>x\<bar>\<rfloor>"
  define ulp where "ulp = pow2 (e - 52)"
  have ulp: "0 < ulp" by (simp add: ulp_def pow2_pos)
  have b: "binary64 x = of_int (round_half_even (x / ulp)) * ulp"
    using False by (simp add: binary64_def Let_def e_def ulp_def)
  have "\<bar>of_int (round_half_even (x / ulp)) - x / ulp\<bar> * ulp \<le> 1 / 2 * ulp"
    using round_half_even_error [of "x / ulp"] ulp by (intro mult_right_mono) simp_all
  moreover have "\<bar>of_int (round_half_even (x / ulp)) - x / ulp\<bar> * ulp = \<bar>binary64 x - x\<bar>"
  proof -
    have "\<bar>of_int (round_half_even (x / ulp)) - x / ulp\<bar> * ulp
          = \<bar>(of_int (round_half_even (x / ulp)) - x / ulp) * ulp\<bar>"
      using ulp by (simp add: abs_mult)
    also have "(of_int (round_half_even (x / ulp)) - x / ulp) * ulp = binary64 x - x"
      using ulp by (simp add: b algebra_simps)
    finally show ?thesis .
  qed
  ultimately have err: "\<bar>binary64 x - x\<bar> \<le> ulp / 2" by simp
  have "pow2 e \<le> \<bar>x\<bar>" unfolding e_def using False by (intro pow2_floor_log2) simp
  moreover have "pow2 e = ulp * 2 ^ 52"
  proof -
    have "pow2 e = pow2 ((e - 52) + 52)" by simp
    also have "\<dots> = pow2 (e - 52) * pow2 52" by (rule pow2_add)
    finally show ?thesis by (simp add: ulp_def pow2_def)
  qed
  ultimately have "ulp * 2 ^ 52 \<le> \<bar>x\<bar>" by simp
  then have "ulp / 2 \<le> \<bar>x\<bar> / 2 ^ 53" by (simp add: field_simps)
  with err show ?thesis by linarith
qed

lemma binary64_bounds:
  assumes "0 \<le> x"
  shows "x - x / 2 ^ 53 \<le> binary64 x" and "binary64 x \<le> x + x / 2 ^ 53"
proof -
  have e: "\<bar>binary64 x - x\<bar> \<le> x / 2 ^ 53"
    using binary64_error [of x] assms by simp
  show "x - x / 2 ^ 53 \<le> binary64 x" using e by linarith
  show "binary64 x \<le> x + x / 2 ^ 53" using e by linarith
qed

lemma binary64_nonneg:
  assumes "0 \<le> x"
  shows "0 \<le> binary64 x"
proof -
  have "x / 2 ^ 53 \<le> x" using assms by simp
  with binary64_bounds(1) [OF assms] show ?thesis by linarith
qed

lemma binary64_pos:
  assumes "0 < x"
  shows "0 < binary64 x"
proof -
  have "x / 2 ^ 53 < x" using assms by simp
  moreover have "x - x / 2 ^ 53 \<le> binary64 x" using assms by (intro binary64_bounds) simp
  ultimately show ?thesis by linarith
qed






subsection \<open>Performance insights\<close>





subsection \<open>Bore profile\<close>















subsection \<open>Wall thickness\<close>

lemmas shape_names = hourglass_def bell_flare_def reverse_taper_def user_defined_def standard_def

lemma bulge_bound:
  fixes f :: real
  assumes "0 \<le> f" "f \<le> 1"
  shows "(f - 0.5)\<^sup>2 \<le> 1"
proof -
  have "f * (f - 1) \<le> 0" using assms by (simp add: mult_nonneg_nonpos)
  then have "(f - 0.5)\<^sup>2 \<le> 0.25" by (simp add: power2_eq_square algebra_simps)
  then show ?thesis by simp
qed

lemma outer_factor_hourglass:
  "outer_factor_of hourglass l x r = Inr (1.1 - 0.0005 * \<bar>x - 0.5 * l\<bar>)"
  by (simp add: outer_factor_of_def shape_names)

lemma outer_factor_bell:
  "outer_factor_of bell_flare l x (Inr f) = Inr (1.0 + 0.2 * f)"
  by (simp add: outer_factor_of_def shape_names)

lemma outer_factor_bulge:
  "outer_factor_of reverse_taper l x (Inr f) = Inr (1.0 + 0.25 * (1 - (f - 0.5)\<^sup>2))"
  by (simp add: outer_factor_of_def shape_names)

lemma outer_factor_user:
  "outer_factor_of user_defined l x (Inr f) = Inr (1.0 + 0.05 * f)"
  by (simp add: outer_factor_of_def shape_names)

lemma outer_factor_standard:
  "outer_factor_of standard l x r = Inr 1.05"
  by (simp add: outer_factor_of_def shape_names)

lemma outer_factor_other:
  assumes "\<not> uses_fraction s" "s \<noteq> hourglass" "s \<noteq> standard"
  shows "outer_factor_of s l x r = Inr 1.0"
  using assms by (simp add: outer_factor_of_def uses_fraction_def shape_names)


lemma for_each_all:
  assumes "\<forall>x\<in>set xs. \<exists>y. f x = Inr y \<and> P y"
  shows "\<exists>ys. for_each f xs = Inr ys \<and> length ys = length xs \<and> (\<forall>y\<in>set ys. P y)"
  using assms
proof (induction xs)
  case Nil
  then show ?case by simp
next
  case (Cons x xs)
  then obtain y ys where "f x = Inr y" "P y" "for_each f xs = Inr ys"
    "length ys = length xs" "\<forall>y\<in>set ys. P y"
    by auto
  then show ?case by simp
qed

lemma enumerate_py_set:
  "(i, x) \<in> set (enumerate_py xs) \<Longrightarrow> i < length xs \<and> x = xs ! i"
  by (auto simp: enumerate_py_def set_zip)

lemma outer_factor_ge_1:
  assumes fr: "uses_fraction exterior_shape \<longrightarrow> (\<exists>f. ratio = Inr f \<and> 0 \<le> f \<and> f \<le> 1)"
    and hg: "exterior_shape = hourglass \<longrightarrow> \<bar>x - 0.5 * length1\<bar> \<le> 200"
  shows "\<exists>c. outer_factor_of exterior_shape length1 x ratio = Inr c \<and> 1 \<le> c"
proof -
  consider (hour) "exterior_shape = hourglass"
    | (bell) "exterior_shape = bell_flare"
    | (bulge) "exterior_shape = reverse_taper"
    | (user) "exterior_shape = user_defined"
    | (std) "exterior_shape = standard"
    | (other) "\<not> uses_fraction exterior_shape" "exterior_shape \<noteq> hourglass"
        "exterior_shape \<noteq> standard"
    unfolding uses_fraction_def by blast
  then show ?thesis
  proof cases
    case hour
    with hg have "\<bar>x - 0.5 * length1\<bar> \<le> 200" by blast
    then have "(1::real) \<le> 1.1 - 0.0005 * \<bar>x - 0.5 * length1\<bar>" by simp
    then show ?thesis unfolding hour outer_factor_hourglass by blast
  next
    case bell
    with fr obtain f where f: "ratio = Inr f" "0 \<le> f" unfolding uses_fraction_def by blast
    have "(1::real) \<le> 1.0 + 0.2 * f" using f(2) by simp
    then show ?thesis unfolding bell f(1) outer_factor_bell by blast
  next
    case bulge
    with fr obtain f where f: "ratio = Inr f" "0 \<le> f" "f \<le> 1" unfolding uses_fraction_def by blast
    have "(1::real) \<le> 1.0 + 0.25 * (1 - (f - 0.5)\<^sup>2)" using bulge_bound [OF f(2,3)] by simp
    then show ?thesis unfolding bulge f(1) outer_factor_bulge by blast
  next
    case user
    with fr obtain f where f: "ratio = Inr f" "0 \<le> f" unfolding uses_fraction_def by blast
    have "(1::real) \<le> 1.0 + 0.05 * f" using f(2) by simp
    then show ?thesis unfolding user f(1) outer_factor_user by blast
  next
    case std
    have "(1::real) \<le> 1.05" by simp
    then show ?thesis unfolding std outer_factor_standard by blast
  next
    case other
    have "(1::real) \<le> 1.0" by simp
    then show ?thesis unfolding outer_factor_other [OF other] by blast
  qed
qed


lemma thickness_at_nonneg:
  assumes "factor = Inr c" "1 \<le> c" "i < length bore_diam_vals" "0 \<le> bore_diam_vals ! i"
  shows "\<exists>t. thickness_at bore_diam_vals i factor = Inr t \<and> 0 \<le> t"
proof -
  let ?d = "bore_diam_vals ! i"
  have "?d \<le> ?d * c"
    using assms(2,4) by (simp add: mult_le_cancel_left1)
  then have "0 \<le> (?d * c - ?d) / 2" by simp
  moreover have "thickness_at bore_diam_vals i factor = Inr ((?d * c - ?d) / 2)"
    using assms(1,3) by (simp add: thickness_at_def list_item_def Let_def)
  ultimately show ?thesis by blast
qed

lemma ratio_geometry:
  assumes "i < n" "n \<noteq> 1"
  shows "\<exists>f. int_truediv (int i) (int n - 1) = Inr f \<and> 0 \<le> f \<and> f \<le> 1"
proof -
  have "int_truediv (int i) (int n - 1) = Inr (real_of_int (int i) / real_of_int (int n - 1))"
    using assms by (simp add: int_truediv_def)
  moreover have "0 \<le> real_of_int (int i) / real_of_int (int n - 1)" using assms by simp
  moreover have "real_of_int (int i) / real_of_int (int n - 1) \<le> 1"
    using assms by (simp add: divide_le_eq_1)
  ultimately show ?thesis by blast
qed

lemma ratio_barrel:
  assumes "i < n"
  shows "\<exists>f. int_truediv (int i) (max 1 (int n - 1)) = Inr f \<and> 0 \<le> f \<and> f \<le> 1"
proof -
  let ?m = "max 1 (int n - 1)"
  have m: "0 < ?m" "int i \<le> ?m" using assms by auto
  have "int_truediv (int i) ?m = Inr (real_of_int (int i) / real_of_int ?m)"
    using m by (simp add: int_truediv_def)
  moreover have "0 \<le> real_of_int (int i) / real_of_int ?m" using m by simp
  moreover have "real_of_int (int i) / real_of_int ?m \<le> 1"
    using m by (simp add: divide_le_eq_1 del: of_int_max)
  ultimately show ?thesis by blast
qed

lemma thickness_loop_nonneg:
  assumes len: "length bore_diam_vals = length x_vals"
    and d: "\<forall>d\<in>set bore_diam_vals. 0 \<le> d"
    and h: "exterior_shape = hourglass \<longrightarrow> (\<forall>x\<in>set x_vals. \<bar>x - 0.5 * length1\<bar> \<le> 200)"
    and r: "\<forall>i<length x_vals. uses_fraction exterior_shape \<longrightarrow>
             (\<exists>f. ratio i = Inr f \<and> 0 \<le> f \<and> f \<le> 1)"
  shows "\<exists>ts. for_each (\<lambda>(i, x). thickness_at bore_diam_vals i
                  (outer_factor_of exterior_shape length1 x (ratio i))) (enumerate_py x_vals) = Inr ts
            \<and> length ts = length x_vals \<and> (\<forall>t\<in>set ts. 0 \<le> t)"
proof -
  let ?body = "\<lambda>(i, x). thickness_at bore_diam_vals i
                  (outer_factor_of exterior_shape length1 x (ratio i))"
  have "\<exists>t. ?body ix = Inr t \<and> 0 \<le> t" if "ix \<in> set (enumerate_py x_vals)" for ix
  proof -
    obtain i x where ix: "ix = (i, x)" by (cases ix)
    with that have i: "i < length x_vals" "x = x_vals ! i"
      using enumerate_py_set [of i x x_vals] by simp_all
    have "uses_fraction exterior_shape \<longrightarrow> (\<exists>f. ratio i = Inr f \<and> 0 \<le> f \<and> f \<le> 1)"
      using r i(1) by blast
    moreover have "exterior_shape = hourglass \<longrightarrow> \<bar>x - 0.5 * length1\<bar> \<le> 200"
      using h i by simp
    ultimately obtain c where c:
      "outer_factor_of exterior_shape length1 x (ratio i) = Inr c" "1 \<le> c"
      using outer_factor_ge_1 by blast
    have "i < length bore_diam_vals" "0 \<le> bore_diam_vals ! i" using d i(1) len by simp_all
    from thickness_at_nonneg [OF c this] show ?thesis by (simp add: ix)
  qed
  then have "\<forall>ix\<in>set (enumerate_py x_vals). \<exists>t. ?body ix = Inr t \<and> 0 \<le> t" by blast
  from for_each_all [OF this] show ?thesis by (simp add: enumerate_py_def)
qed

lemma mock_thickness_map_nonneg:
  assumes len: "length bore_diam_vals = length x_vals"
    and d: "\<forall>d\<in>set bore_diam_vals. 0 \<le> d"
    and h: "exterior_shape = hourglass \<longrightarrow>
             (\<forall>x\<in>set x_vals. \<bar>x - 0.5 * (last x_vals - hd x_vals)\<bar> \<le> 200)"
    and one: "length x_vals = 1 \<longrightarrow> \<not> uses_fraction exterior_shape"
  shows "\<exists>ts. mock_thickness_map x_vals bore_diam_vals exterior_shape = Inr ts
            \<and> length ts = length x_vals \<and> (\<forall>t\<in>set ts. 0 \<le> t)"
proof (cases "x_vals = []")
  case True
  then show ?thesis by (simp add: mock_thickness_map_def)
next
  case False
  have "\<forall>i<length x_vals. uses_fraction exterior_shape \<longrightarrow>
          (\<exists>f. int_truediv (int i) (int (length x_vals) - 1) = Inr f \<and> 0 \<le> f \<and> f \<le> 1)"
    using ratio_geometry one by blast
  from thickness_loop_nonneg [OF len d h this] False show ?thesis
    by (simp add: mock_thickness_map_def)
qed

lemma barrel_mock_thickness_map_nonneg:
  assumes len: "length bore_diam_vals = length x_vals"
    and d: "\<forall>d\<in>set bore_diam_vals. 0 \<le> d"
    and h: "exterior_shape = hourglass \<longrightarrow>
             (\<forall>x\<in>set x_vals. \<bar>x - 0.5 * (last x_vals - hd x_vals)\<bar> \<le> 200)"
  shows "\<exists>ts. barrel_mock_thickness_map x_vals bore_diam_vals exterior_shape = Inr ts
            \<and> length ts = length x_vals \<and> (\<forall>t\<in>set ts. 0 \<le> t)"
proof -
  let ?len = "if x_vals \<noteq> [] then last x_vals - hd x_vals else 0"
  have h': "exterior_shape = hourglass \<longrightarrow> (\<forall>x\<in>set x_vals. \<bar>x - 0.5 * ?len\<bar> \<le> 200)"
    using h by (cases "x_vals = []") simp_all
  have "\<forall>i<length x_vals. uses_fraction exterior_shape \<longrightarrow>
          (\<exists>f. int_truediv (int i) (max 1 (int (length x_vals) - 1)) = Inr f \<and> 0 \<le> f \<and> f \<le> 1)"
    using ratio_barrel by blast
  from thickness_loop_nonneg [OF len d h' this] show ?thesis
    by (simp add: barrel_mock_thickness_map_def)
qed

text \<open>
  Claim C4, as the code has it. For every curve whose two sequences have the same length
  and whose bore diameters are not negative, and for every exterior shape, with, for the
  hourglass, every position within 200 of the midpoint \<open>0.5 * (last - first)\<close> that the code
  measures from: the copy in \<^verbatim>\<open>barrel.py\<close> returns a thickness sequence of the length of
  the curve whose values are all at least 0, and so does the copy in \<^verbatim>\<open>geometry.py\<close>
  unless the curve has a single sample and the shape is one of the three that use the
  fraction; both return the empty sequence for the empty curve.
\<close>

theorem mock_thickness_map_nonnegative:
  assumes "length bore_diam_vals = length x_vals"
    and "\<forall>d\<in>set bore_diam_vals. 0 \<le> d"
    and "exterior_shape = ''Hourglass (waist tapered)'' \<longrightarrow>
           (\<forall>x\<in>set x_vals. \<bar>x - 0.5 * (last x_vals - hd x_vals)\<bar> \<le> 200)"
  shows "(\<exists>ts. barrel_mock_thickness_map x_vals bore_diam_vals exterior_shape = Inr ts
              \<and> length ts = length x_vals \<and> (\<forall>t\<in>set ts. 0 \<le> t))
       \<and> ((length x_vals = 1 \<longrightarrow> \<not> uses_fraction exterior_shape) \<longrightarrow>
            (\<exists>ts. mock_thickness_map x_vals bore_diam_vals exterior_shape = Inr ts
              \<and> length ts = length x_vals \<and> (\<forall>t\<in>set ts. 0 \<le> t)))
       \<and> barrel_mock_thickness_map [] [] exterior_shape = Inr []
       \<and> mock_thickness_map [] [] exterior_shape = Inr []"
proof -
  have h: "exterior_shape = hourglass \<longrightarrow>
             (\<forall>x\<in>set x_vals. \<bar>x - 0.5 * (last x_vals - hd x_vals)\<bar> \<le> 200)"
    using assms(3) by (simp only: hourglass_def)
  have "barrel_mock_thickness_map [] [] exterior_shape = Inr []"
    by (simp add: barrel_mock_thickness_map_def enumerate_py_def)
  moreover have "mock_thickness_map [] [] exterior_shape = Inr []"
    by (simp add: mock_thickness_map_def)
  ultimately show ?thesis
    using barrel_mock_thickness_map_nonneg [OF assms(1,2) h]
      mock_thickness_map_nonneg [OF assms(1,2) h]
    by blast
qed

theorem mock_thickness_map_nonnegative_witness:
  "length [15, 14.5, 14 :: real] = length [0, 33, 66 :: real]
   \<and> list_all (\<lambda>d. 0 \<le> d) [15, 14.5, 14 :: real]
   \<and> list_all (\<lambda>x. \<bar>x - 0.5 * (last [0, 33, 66] - hd [0, 33, 66])\<bar> \<le> 200) [0, 33, 66 :: real]
   \<and> (\<exists>ts. mock_thickness_map [0, 33, 66] [15, 14.5, 14] ''Hourglass (waist tapered)'' = Inr ts
          \<and> length ts = length [0, 33, 66 :: real] \<and> (\<forall>t\<in>set ts. 0 \<le> t))"
  using mock_thickness_map_nonnegative
    [where x_vals = "[0, 33, 66]" and bore_diam_vals = "[15, 14.5, 14]"
       and exterior_shape = "''Hourglass (waist tapered)''"]
  by simp

text \<open>
  The claim as written fails in both copies: a curve from 0 to 500 with the hourglass
  exterior is further than 200 from the midpoint at both ends, where the outer factor is
  0.975 and the thickness of a bore of diameter 15 is negative.
\<close>

theorem mock_thickness_map_counterexample:
  "mock_thickness_map [0, 500] [15, 15] ''Hourglass (waist tapered)''
     = Inr [- (3 / 16), - (3 / 16)]
   \<and> barrel_mock_thickness_map [0, 500] [15, 15] ''Hourglass (waist tapered)''
     = Inr [- (3 / 16), - (3 / 16)]"
  by (simp add: mock_thickness_map_def barrel_mock_thickness_map_def enumerate_py_def
      upt_conv_Cons thickness_at_def outer_factor_of_def list_item_def)

text \<open>
  A bore diameter below zero gives a thickness below zero whatever the shape. A single
  sample makes \<^verbatim>\<open>geometry.py\<close> divide by zero in the three branches that compute
  the fraction; \<^verbatim>\<open>barrel.py\<close> guards the divisor with \<^verbatim>\<open>max(1, ...)\<close>.
\<close>

lemma mock_thickness_map_negative_diameter:
  "mock_thickness_map [0, 66] [- 15, - 15] ''Standard (parallel exterior)''
     = Inr [- (3 / 8), - (3 / 8)]"
  by (simp add: mock_thickness_map_def enumerate_py_def upt_conv_Cons thickness_at_def
      outer_factor_of_def list_item_def)

lemma mock_thickness_map_single_sample:
  "mock_thickness_map [5] [15] ''User-Defined'' = Inl ZeroDivisionError
   \<and> barrel_mock_thickness_map [5] [15] ''User-Defined'' = Inr [0]"
  by (simp add: mock_thickness_map_def barrel_mock_thickness_map_def enumerate_py_def
      thickness_at_def outer_factor_of_def int_truediv_def list_item_def)


subsection \<open>Unfolded outline\<close>

lemma for_each_map:
  assumes "\<forall>x\<in>set xs. f x = Inr (g x)"
  shows "for_each f xs = Inr (map g xs)"
  using assms by (induction xs) simp_all

lemma insort_decorated:
  "insort_key fst (k a, a) (map (\<lambda>s. (k s, s)) zs) = map (\<lambda>s. (k s, s)) (insort_key k a zs)"
  by (induction zs) simp_all

lemma sort_decorated:
  "sort_key fst (map (\<lambda>s. (k s, s)) xs) = map (\<lambda>s. (k s, s)) (sort_key k xs)"
  by (induction xs) (simp_all add: insort_decorated)

lemma sorted_by_start_pos_sort:
  assumes "\<forall>seg\<in>set bore_data. map_of seg ''start_pos'' \<noteq> None"
  shows "sorted_by_start_pos bore_data = Inr (sort_key start_pos bore_data)"
proof -
  have "\<forall>seg\<in>set bore_data.
          (case map_of seg ''start_pos'' of None \<Rightarrow> Inl KeyError | Some k \<Rightarrow> Inr (k, seg))
          = Inr (start_pos seg, seg)"
    using assms by (auto simp: start_pos_def seg_get_def)
  from for_each_map [OF this] show ?thesis
    by (simp add: sorted_by_start_pos_def sort_decorated comp_def)
qed

lemma foldl_append_concat:
  "foldl (\<lambda>acc x. (acc @ [g x]) @ [h x]) acc xs = acc @ concat (map (\<lambda>x. [g x, h x]) xs)"
  by (induction xs arbitrary: acc) simp_all

lemma top_edge_loop_points: "top_edge_loop segs = concat (map top_points segs)"
  unfolding top_edge_loop_def Let_def foldl_append_concat top_points_def by simp

lemma bot_edge_loop_points: "bot_edge_loop segs = concat (map bottom_points segs)"
  unfolding bot_edge_loop_def Let_def foldl_append_concat bottom_points_def by simp

lemma outline_of_sorted:
  assumes "\<forall>seg\<in>set bore_data. map_of seg ''start_pos'' \<noteq> None"
  shows "build_unfolded_bore_outline bore_data =
           Inr (map fst (outline_points (sort_key start_pos bore_data)),
                map snd (outline_points (sort_key start_pos bore_data)))"
proof (cases "bore_data = []")
  case True
  then show ?thesis by (simp add: build_unfolded_bore_outline_def outline_points_def)
next
  case False
  then show ?thesis
    by (simp add: build_unfolded_bore_outline_def sorted_by_start_pos_sort [OF assms]
        top_edge_loop_points bot_edge_loop_points outline_points_def Let_def)
qed

text \<open>
  Claim C8. For every list of bore segments (dictionaries that have the key
  \<^verbatim>\<open>start_pos\<close>, which the sort reads) \<^verbatim>\<open>build_unfolded_bore_outline\<close> returns the
  coordinates of the points of the specification's outline over the segments sorted by
  \<^verbatim>\<open>start_pos\<close>: the sorted list is ascending, a permutation of the input, and keeps
  segments of equal \<^verbatim>\<open>start_pos\<close> in their input order. The empty list gives the empty
  outline, and the single segment from 0 to 10 with both diameters 14 gives the four
  points (0, 7), (10, 7), (10, -7), (0, -7).
\<close>

theorem build_unfolded_bore_outline_points:
  assumes "\<forall>seg\<in>set bore_data. map_of seg ''start_pos'' \<noteq> None"
  shows "(\<exists>sorted_segments xs ys.
            build_unfolded_bore_outline bore_data = Inr (xs, ys)
            \<and> length xs = length ys
            \<and> zip xs ys = outline_points sorted_segments
            \<and> sorted (map start_pos sorted_segments)
            \<and> mset sorted_segments = mset bore_data
            \<and> (\<forall>k. filter (\<lambda>seg. start_pos seg = k) sorted_segments
                     = filter (\<lambda>seg. start_pos seg = k) bore_data))
       \<and> build_unfolded_bore_outline [] = Inr ([], [])
       \<and> (\<exists>xs ys. build_unfolded_bore_outline
              [[(''start_pos'', 0), (''end_pos'', 10), (''start_dia'', 14), (''end_dia'', 14)]]
            = Inr (xs, ys) \<and> zip xs ys = [(0, 7), (10, 7), (10, - 7), (0, - 7)])"
proof -
  let ?s = "sort_key start_pos bore_data"
  let ?pts = "outline_points ?s"
  have "build_unfolded_bore_outline bore_data = Inr (map fst ?pts, map snd ?pts)"
    using assms by (rule outline_of_sorted)
  moreover have "length (map fst ?pts) = length (map snd ?pts)" by simp
  moreover have "zip (map fst ?pts) (map snd ?pts) = ?pts" by (rule zip_map_fst_snd)
  moreover have "sorted (map start_pos ?s)" by (rule sorted_sort_key)
  moreover have "mset ?s = mset bore_data" by simp
  moreover have "\<forall>k. filter (\<lambda>seg. start_pos seg = k) ?s
                     = filter (\<lambda>seg. start_pos seg = k) bore_data"
    by (simp add: sort_key_stable)
  ultimately have general: "\<exists>sorted_segments xs ys.
            build_unfolded_bore_outline bore_data = Inr (xs, ys)
            \<and> length xs = length ys
            \<and> zip xs ys = outline_points sorted_segments
            \<and> sorted (map start_pos sorted_segments)
            \<and> mset sorted_segments = mset bore_data
            \<and> (\<forall>k. filter (\<lambda>seg. start_pos seg = k) sorted_segments
                     = filter (\<lambda>seg. start_pos seg = k) bore_data)"
    by blast
  have empty: "build_unfolded_bore_outline [] = Inr ([], [])"
    by (simp add: build_unfolded_bore_outline_def)
  have "build_unfolded_bore_outline
          [[(''start_pos'', 0), (''end_pos'', 10), (''start_dia'', 14), (''end_dia'', 14)]]
        = Inr ([0, 10, 10, 0], [7, 7, - 7, - 7])"
    by (simp add: build_unfolded_bore_outline_def sorted_by_start_pos_def top_edge_loop_def
        bot_edge_loop_def seg_get_def)
  then have single: "\<exists>xs ys. build_unfolded_bore_outline
              [[(''start_pos'', 0), (''end_pos'', 10), (''start_dia'', 14), (''end_dia'', 14)]]
            = Inr (xs, ys) \<and> zip xs ys = [(0, 7), (10, 7), (10, - 7), (0, - 7)]"
    by simp
  from general empty single show ?thesis by (intro conjI)
qed

theorem build_unfolded_bore_outline_points_witness:
  "list_all (\<lambda>seg. map_of seg ''start_pos'' \<noteq> None)
     [[(''start_pos'', 10), (''end_pos'', 20), (''start_dia'', 14), (''end_dia'', 15 :: real)],
      [(''start_pos'', 0), (''end_pos'', 10), (''start_dia'', 14), (''end_dia'', 14)]]
   \<and> (\<exists>xs ys. build_unfolded_bore_outline
         [[(''start_pos'', 10), (''end_pos'', 20), (''start_dia'', 14), (''end_dia'', 15)],
          [(''start_pos'', 0), (''end_pos'', 10), (''start_dia'', 14), (''end_dia'', 14)]]
        = Inr (xs, ys) \<and> length xs = length ys)"
  using build_unfolded_bore_outline_points
    [where bore_data =
      "[[(''start_pos'', 10), (''end_pos'', 20), (''start_dia'', 14), (''end_dia'', 15)],
        [(''start_pos'', 0), (''end_pos'', 10), (''start_dia'', 14), (''end_dia'', 14)]]"]
  by auto


subsection \<open>Comparison history\<close>

lemma comparison_row_complete:
  assumes "complete_entry c"
  shows "comparison_row c = Inr (row_of c)"
  using assms by (auto simp: complete_entry_def comparison_row_def dict_item_def row_of_def)

lemma comparison_entry_snapshot: "comparison_entry sim name = snapshot name sim"
  by (simp add: comparison_entry_def snapshot_def dict_get_def)

lemma complete_snapshot: "complete_entry (snapshot name sim)"
  by (simp add: complete_entry_def snapshot_def)

lemma comparison_table_complete:
  assumes "list_all complete_entry cd"
  shows "\<exists>shown. comparison_table cd = Inr (cd, shown)"
proof -
  have "\<forall>c\<in>set cd. comparison_row c = Inr (row_of c)"
    using assms comparison_row_complete by (simp add: list_all_iff)
  from for_each_map [OF this] show ?thesis by (simp add: comparison_table_def)
qed

lemma triggered_compare: "triggered_id_of ''compare-mode-btn.n_clicks'' = ''compare-mode-btn''"
  by (simp add: triggered_id_of_def)

lemma list_all_most_recent_5: "list_all P xs \<Longrightarrow> list_all P (most_recent_5 xs)"
  by (auto simp: most_recent_5_def list_all_iff dest: in_set_dropD)

lemma add_to_comparison_step:
  assumes sim: "truthy_dict current_sim" and cd: "list_all complete_entry cd"
  shows "\<exists>shown. add_to_comparison ''compare-mode-btn.n_clicks'' current_sim design_name (Some cd)
           = Inr (most_recent_5 (cd @ added_entries (length cd) [(current_sim, design_name)]), shown)"
proof -
  let ?name = "if truthy_str design_name then the design_name
               else ''Design '' @ str_nat (length cd + 1)"
  let ?e = "snapshot ?name (the current_sim)"
  have "list_all complete_entry (cd @ [?e])"
    using cd complete_snapshot by simp
  then have "list_all complete_entry (most_recent_5 (cd @ [?e]))"
    by (rule list_all_most_recent_5)
  from comparison_table_complete [OF this] obtain shown where
    "comparison_table (most_recent_5 (cd @ [?e])) = Inr (most_recent_5 (cd @ [?e]), shown)"
    by blast
  then show ?thesis
    using sim
    by (cases "truthy_str design_name")
      (simp_all add: add_to_comparison_def triggered_compare most_recent_5_def Let_def
        comparison_entry_snapshot)
qed

lemma most_recent_5_absorb: "most_recent_5 (most_recent_5 xs @ ys) = most_recent_5 (xs @ ys)"
proof (cases "length xs \<le> 5")
  case True
  then show ?thesis by (simp add: most_recent_5_def)
next
  case False
  then have "length xs + length ys - 5 = length ys + (length xs - 5)" by simp
  with False show ?thesis by (simp add: most_recent_5_def)
qed

lemma length_most_recent_5: "length (most_recent_5 (xs @ [x])) = min 5 (length xs + 1)"
  by (simp add: most_recent_5_def)

lemma add_all_window:
  assumes "list_all (\<lambda>(sim, name). truthy_dict sim) adds" and "list_all complete_entry cd"
    and "adds \<noteq> []"
  shows "add_all cd adds = Inr (most_recent_5 (cd @ added_entries (length cd) adds))"
  using assms
proof (induction adds arbitrary: cd)
  case Nil
  then show ?case by simp
next
  case (Cons a adds)
  obtain sim name where a: "a = (sim, name)" by (cases a)
  let ?e = "added_entries (length cd) [(sim, name)]"
  let ?cd' = "most_recent_5 (cd @ ?e)"
  from Cons.prems a have sim: "truthy_dict sim" and rest: "list_all (\<lambda>(sim, name). truthy_dict sim) adds"
    by simp_all
  from add_to_comparison_step [OF sim Cons.prems(2)] obtain shown where
    step: "add_to_comparison ''compare-mode-btn.n_clicks'' sim name (Some cd) = Inr (?cd', shown)"
    by blast
  have cd': "list_all complete_entry ?cd'"
    using Cons.prems(2) complete_snapshot by (intro list_all_most_recent_5) simp
  have len: "length ?cd' = min 5 (length cd + 1)"
    by (simp add: length_most_recent_5)
  show ?case
  proof (cases "adds = []")
    case True
    then show ?thesis using step by (simp add: a)
  next
    case False
    from Cons.IH [OF rest cd' False]
    have "add_all ?cd' adds = Inr (most_recent_5 (?cd' @ added_entries (length ?cd') adds))" .
    also have "most_recent_5 (?cd' @ added_entries (length ?cd') adds)
               = most_recent_5 ((cd @ ?e) @ added_entries (min 5 (length cd + 1)) adds)"
      by (simp only: most_recent_5_absorb len)
    finally show ?thesis using step by (simp add: a)
  qed
qed

text \<open>
  Claim C5. Start from any comparison list the callback has stored (every entry has the
  six keys the table reads) and make any non-empty sequence of additions, each with a
  simulation result present. The retained list is then exactly the most recent five,
  oldest first, of the starting entries followed by the added entries, an added entry
  being the snapshot of its result under its name; with an empty start these are the most
  recently added five, or all of them when fewer were added. The statement holds for
  every sequence, so it holds after each addition. In particular six additions named D1
  to D6 to the empty list leave five entries, whose names are D2, D3, D4, D5, D6 in that
  order, each the snapshot of the result added under that name.
\<close>

theorem add_to_comparison_sliding_window:
  assumes "list_all (\<lambda>(current_sim, design_name). truthy_dict current_sim) adds"
    and "list_all complete_entry start"
    and "adds \<noteq> []"
    and "sim \<noteq> []"
  shows "add_all start adds = Inr (most_recent_5 (start @ added_entries (length start) adds))
       \<and> add_all [] (map (\<lambda>n. (Some sim, Some n)) [''D1'', ''D2'', ''D3'', ''D4'', ''D5'', ''D6''])
           = Inr [snapshot ''D2'' sim, snapshot ''D3'' sim, snapshot ''D4'' sim,
                  snapshot ''D5'' sim, snapshot ''D6'' sim]
       \<and> map_sum id entry_names
             (add_all [] (map (\<lambda>n. (Some sim, Some n))
                [''D1'', ''D2'', ''D3'', ''D4'', ''D5'', ''D6'']))
           = Inr [Some (JStr ''D2''), Some (JStr ''D3''), Some (JStr ''D4''),
                  Some (JStr ''D5''), Some (JStr ''D6'')]"
proof -
  let ?six = "map (\<lambda>n. (Some sim, Some n)) [''D1'', ''D2'', ''D3'', ''D4'', ''D5'', ''D6'']"
  let ?kept = "[snapshot ''D2'' sim, snapshot ''D3'' sim, snapshot ''D4'' sim,
                snapshot ''D5'' sim, snapshot ''D6'' sim]"
  have "add_all [] ?six = Inr (most_recent_5 ([] @ added_entries (length ([] :: pydict list)) ?six))"
    using add_all_window [of ?six "[]"] assms(4) by (simp add: truthy_dict_def)
  moreover have "most_recent_5 ([] @ added_entries (length ([] :: pydict list)) ?six) = ?kept"
    by (simp add: most_recent_5_def truthy_str_def)
  ultimately have six: "add_all [] ?six = Inr ?kept" by simp
  have names: "entry_names ?kept
                 = [Some (JStr ''D2''), Some (JStr ''D3''), Some (JStr ''D4''),
                    Some (JStr ''D5''), Some (JStr ''D6'')]"
    by (simp add: entry_names_def snapshot_def)
  have "map_sum id entry_names (add_all [] ?six)
          = Inr [Some (JStr ''D2''), Some (JStr ''D3''), Some (JStr ''D4''),
                 Some (JStr ''D5''), Some (JStr ''D6'')]"
    unfolding six map_sum.simps names ..
  with six add_all_window [OF assms(1,2,3)] show ?thesis by (intro conjI)
qed

theorem add_to_comparison_sliding_window_witness:
  "list_all (\<lambda>(current_sim, design_name). truthy_dict current_sim)
      [(Some [(''f1'', JNum 440)], Some ''A''), (Some [(''f1'', JNum 441)], None)]
   \<and> list_all complete_entry
        [[(''name'', JStr ''Z''), (''f1'', JNum 430), (''cutoff'', JNum 946),
          (''resistance'', JNum 50), (''brightness'', JNum 0.5), (''harmonicity'', JNum 0.8)]]
   \<and> add_all
        [[(''name'', JStr ''Z''), (''f1'', JNum 430), (''cutoff'', JNum 946),
          (''resistance'', JNum 50), (''brightness'', JNum 0.5), (''harmonicity'', JNum 0.8)]]
        [(Some [(''f1'', JNum 440)], Some ''A''), (Some [(''f1'', JNum 441)], None)]
      = Inr [[(''name'', JStr ''Z''), (''f1'', JNum 430), (''cutoff'', JNum 946),
              (''resistance'', JNum 50), (''brightness'', JNum 0.5), (''harmonicity'', JNum 0.8)],
             [(''name'', JStr ''A''), (''f1'', JNum 440), (''cutoff'', JNum 0),
              (''resistance'', JNum 0), (''brightness'', JNum 0), (''harmonicity'', JNum 0)],
             [(''name'', JStr ''Design 3''), (''f1'', JNum 441), (''cutoff'', JNum 0),
              (''resistance'', JNum 0), (''brightness'', JNum 0), (''harmonicity'', JNum 0)]]"
  using add_to_comparison_sliding_window
    [where start = "[[(''name'', JStr ''Z''), (''f1'', JNum 430), (''cutoff'', JNum 946),
          (''resistance'', JNum 50), (''brightness'', JNum 0.5), (''harmonicity'', JNum 0.8)]]"
       and adds = "[(Some [(''f1'', JNum 440)], Some ''A''), (Some [(''f1'', JNum 441)], None)]"
       and sim = "[(''f1'', JNum 440)]"]
  by (simp add: truthy_dict_def truthy_str_def complete_entry_def most_recent_5_def
      snapshot_def str_nat.simps [of "Suc (Suc (Suc 0))"])


subsection \<open>The design store\<close>

text \<open>
  Claim C10. Whatever the store holds, a call with no design name or with the empty name
  returns the store as it was, prints nothing and returns 0. A call with a non-empty name
  writes the design under that name and leaves every other key as it was.
\<close>

theorem save_design_to_memory_frame:
  "((design_name = None \<or> design_name = Some []) \<longrightarrow>
      save_design_to_memory n_clicks design_name bore_shape exterior_shape entry_diam exit_diam
        length_mm resolution material sim_data stored_designs = (stored_designs, [], 0))
   \<and> (\<forall>name. design_name = Some name \<and> name \<noteq> [] \<longrightarrow>
        fst (save_design_to_memory n_clicks design_name bore_shape exterior_shape entry_diam
               exit_diam length_mm resolution material sim_data stored_designs)
        = stored_designs(name \<mapsto>
            [(''bore_shape'', bore_shape), (''exterior_shape'', exterior_shape),
             (''entry_diam'', entry_diam), (''exit_diam'', exit_diam),
             (''length_mm'', length_mm), (''resolution'', resolution),
             (''material'', material), (''simulation'', sim_data)]))"
  by (auto simp: save_design_to_memory_def truthy_str_def)

theorem save_design_to_memory_frame_witness:
  "save_design_to_memory (JNum 1) (Some []) (JStr ''Tapered'') (JStr ''User-Defined'')
      (JNum 15) (JNum 14) (JNum 66) (JStr ''Low'') (JStr ''Mopane'') JNull
      [''kept'' \<mapsto> [(''length_mm'', JNum 60)]]
    = ([''kept'' \<mapsto> [(''length_mm'', JNum 60)]], [], 0)
   \<and> fst (save_design_to_memory (JNum 1) (Some ''new'') (JStr ''Tapered'') (JStr ''User-Defined'')
      (JNum 15) (JNum 14) (JNum 66) (JStr ''Low'') (JStr ''Mopane'') JNull
      [''kept'' \<mapsto> [(''length_mm'', JNum 60)]]) ''kept''
    = Some [(''length_mm'', JNum 60)]"
  using save_design_to_memory_frame
    [where design_name = "Some []" and n_clicks = "JNum 1" and bore_shape = "JStr ''Tapered''"
       and exterior_shape = "JStr ''User-Defined''" and entry_diam = "JNum 15"
       and exit_diam = "JNum 14" and length_mm = "JNum 66" and resolution = "JStr ''Low''"
       and material = "JStr ''Mopane''" and sim_data = JNull
       and stored_designs = "[''kept'' \<mapsto> [(''length_mm'', JNum 60)]]"]
    save_design_to_memory_frame
    [where design_name = "Some ''new''" and n_clicks = "JNum 1" and bore_shape = "JStr ''Tapered''"
       and exterior_shape = "JStr ''User-Defined''" and entry_diam = "JNum 15"
       and exit_diam = "JNum 14" and length_mm = "JNum 66" and resolution = "JStr ''Low''"
       and material = "JStr ''Mopane''" and sim_data = JNull
       and stored_designs = "[''kept'' \<mapsto> [(''length_mm'', JNum 60)]]"]
  by simp


subsection \<open>Session codec\<close>

lemma first_seen_step_fresh:
  assumes "distinct (seen @ ks)"
  shows "foldl (\<lambda>seen k. if k \<in> set seen then seen else seen @ [k]) seen ks = seen @ ks"
  using assms by (induction ks arbitrary: seen) auto

lemma first_seen_step_known:
  assumes "set ks \<subseteq> set seen"
  shows "foldl (\<lambda>seen k. if k \<in> set seen then seen else seen @ [k]) seen ks = seen"
  using assms by (induction ks arbitrary: seen) auto

lemma first_seen_repeated:
  assumes "distinct cols" and "\<forall>ks\<in>set kss. ks = cols"
  shows "first_seen (cols @ concat kss) = cols"
proof -
  have "set (concat kss) \<subseteq> set cols" using assms(2) by auto
  then show ?thesis
    using first_seen_step_fresh [of "[]" cols] assms(1)
    by (simp add: first_seen_def first_seen_step_known)
qed

lemma row_of_zip:
  assumes "length row = length cols" and "distinct cols"
  shows "map (\<lambda>c. case map_of (zip cols row) c of Some v \<Rightarrow> v | None \<Rightarrow> d) cols = row"
  using assms
proof (induction row cols rule: list_induct2)
  case Nil
  then show ?case by simp
next
  case (Cons v vs c cs)
  have "map (\<lambda>k. case map_of (zip (c # cs) (v # vs)) k of Some w \<Rightarrow> w | None \<Rightarrow> d) cs
        = map (\<lambda>k. case map_of (zip cs vs) k of Some w \<Rightarrow> w | None \<Rightarrow> d) cs"
    using Cons.prems by (intro map_cong) auto
  with Cons show ?case by simp
qed

lemma frame_of_to_dict_records:
  assumes "frame_ok df" and "rows df \<noteq> []"
  shows "frame_of_records (to_dict_records df) = df"
proof -
  from assms(1) have d: "distinct (columns df)"
    and w: "\<forall>row\<in>set (rows df). length row = length (columns df)"
    by (simp_all add: frame_ok_def list_all_iff)
  from assms(2) obtain r rs where rows: "rows df = r # rs" by (cases "rows df") auto
  have keys: "map (map fst) (to_dict_records df) = columns df # map (\<lambda>row. columns df) rs"
    using w by (simp add: to_dict_records_def rows)
  have "first_seen (concat (map (map fst) (to_dict_records df))) = columns df"
    unfolding keys using first_seen_repeated [OF d, of "map (\<lambda>row. columns df) rs"] by simp
  moreover have "map (\<lambda>rec. map (\<lambda>c. case map_of rec c of Some v \<Rightarrow> v | None \<Rightarrow> JNull) (columns df))
                   (to_dict_records df) = rows df"
    unfolding to_dict_records_def map_map comp_def
    using w d by (intro map_idI) (simp add: row_of_zip)
  ultimately show ?thesis by (simp add: frame_of_records_def)
qed

lemma records_of_frame_of_records:
  assumes "frame_ok df"
  shows "to_dict_records (frame_of_records (to_dict_records df)) = to_dict_records df"
proof (cases "rows df = []")
  case True
  then show ?thesis by (simp add: to_dict_records_def frame_of_records_def first_seen_def)
next
  case False
  with assms show ?thesis by (simp add: frame_of_to_dict_records)
qed

lemma DataFrame_records:
  "DataFrame pandas_other (JArr (map JObj records)) = Inr (frame_of_records records)"
  by (simp add: DataFrame_def list_all_iff comp_def)

lemma load_session_of_save_session:
  "load_session pandas_other (save_session now bore_df temperature humidity (JObj material) notes)
   = Inr (frame_of_records (to_dict_records bore_df), temperature, humidity, JObj material, notes)"
  by (simp add: load_session_def save_session_def json_loads_def json_dumps_def py_getitem_def
      py_get_def dict_item_def dict_get_def DataFrame_records truthy_def)

text \<open>
  Claim C3. For every design made of a bore profile (a frame as pandas keeps it, so with
  distinct columns and full rows; the position and diameter columns are the case of the
  claim), a temperature, a humidity, material properties (a mapping) and notes, loading
  what \<^verbatim>\<open>save_session\<close> wrote succeeds and returns the same temperature, humidity,
  material and notes and a bore profile with the same sequence of records; the frame
  itself is the same one whenever the profile has at least one row. Numbers are reals
  here, so equal fields are within every tolerance.
\<close>

theorem load_session_save_session_round_trip:
  assumes "frame_ok bore_df"
  shows "\<exists>loaded.
           load_session pandas_other
             (save_session now bore_df temperature humidity (JObj material) session_notes)
           = Inr (loaded, temperature, humidity, JObj material, session_notes)
           \<and> to_dict_records loaded = to_dict_records bore_df
           \<and> (rows bore_df \<noteq> [] \<longrightarrow> loaded = bore_df)"
  using load_session_of_save_session records_of_frame_of_records [OF assms]
    frame_of_to_dict_records [OF assms]
  by blast

theorem load_session_save_session_round_trip_witness:
  "frame_ok \<lparr>columns = [''position'', ''diameter''],
             rows = [[JNum 0, JNum 15], [JNum 33, JNum 14.6], [JNum 66, JNum 14.2]]\<rparr>
   \<and> load_session pandas_rejects
        (save_session ''2026-01-01T00:00:00''
           \<lparr>columns = [''position'', ''diameter''],
            rows = [[JNum 0, JNum 15], [JNum 33, JNum 14.6], [JNum 66, JNum 14.2]]\<rparr>
           (JNum 22.5) (JNum 45) (JObj [(''name'', JStr ''Mopane'')]) (JStr ''warm''))
      = Inr (\<lparr>columns = [''position'', ''diameter''],
              rows = [[JNum 0, JNum 15], [JNum 33, JNum 14.6], [JNum 66, JNum 14.2]]\<rparr>,
             JNum 22.5, JNum 45, JObj [(''name'', JStr ''Mopane'')], JStr ''warm'')"
  using load_session_save_session_round_trip
    [where bore_df = "\<lparr>columns = [''position'', ''diameter''],
            rows = [[JNum 0, JNum 15], [JNum 33, JNum 14.6], [JNum 66, JNum 14.2]]\<rparr>"
       and pandas_other = pandas_rejects and now = "''2026-01-01T00:00:00''"
       and temperature = "JNum 22.5" and humidity = "JNum 45"
       and material = "[(''name'', JStr ''Mopane'')]" and session_notes = "JStr ''warm''"]
  by (auto simp: frame_ok_def)

text \<open>
  Claim C9. A session text is one that parses as JSON to an object with the
  \<^verbatim>\<open>bore_profile\<close> and \<^verbatim>\<open>environment\<close> fields of the session format: the bore profile a
  sequence of records and the environment an object. On every such text \<^verbatim>\<open>load_session\<close>
  does not fail, whichever optional fields are absent: it returns the frame of the
  records, the stored temperature or 22 when the environment has none, the stored
  humidity or 50, the stored material or the empty mapping, and the stored notes or the
  empty string.
\<close>

theorem load_session_defaults:
  assumes "json_loads json_string = Inr (JObj session)"
    and "map_of session ''bore_profile'' = Some (JArr (map JObj records))"
    and "map_of session ''environment'' = Some (JObj env)"
  shows "load_session pandas_other json_string =
           Inr (frame_of_records records,
                (case map_of env ''temperature'' of None \<Rightarrow> JNum 22 | Some v \<Rightarrow> v),
                (case map_of env ''humidity'' of None \<Rightarrow> JNum 50 | Some v \<Rightarrow> v),
                (case map_of session ''material'' of None \<Rightarrow> JObj [] | Some v \<Rightarrow> v),
                (case map_of session ''notes'' of None \<Rightarrow> JStr [] | Some v \<Rightarrow> v))"
proof -
  have "DataFrame pandas_other (JArr (map JObj records)) = Inr (frame_of_records records)"
    by (simp add: DataFrame_def list_all_iff comp_def)
  then show ?thesis
    using assms
    by (simp add: load_session_def py_getitem_def py_get_def dict_item_def dict_get_def)
qed

theorem load_session_defaults_witness:
  "load_session pandas_rejects
     (Document (JObj [(''bore_profile'', JArr [JObj [(''position'', JNum 0), (''diameter'', JNum 15)]]),
                      (''environment'', JObj [])]))
   = Inr (\<lparr>columns = [''position'', ''diameter''], rows = [[JNum 0, JNum 15]]\<rparr>,
          JNum 22, JNum 50, JObj [], JStr [])"
  using load_session_defaults
    [where json_string = "Document (JObj [(''bore_profile'',
                JArr [JObj [(''position'', JNum 0), (''diameter'', JNum 15)]]),
              (''environment'', JObj [])])"
       and session = "[(''bore_profile'', JArr [JObj [(''position'', JNum 0), (''diameter'', JNum 15)]]),
              (''environment'', JObj [])]"
       and records = "[[(''position'', JNum 0), (''diameter'', JNum 15)]]"
       and pandas_other = pandas_rejects
       and env = "[]"]
  by (simp add: json_loads_def frame_of_records_def first_seen_def)


subsection \<open>Simulation adapters\<close>

lemma curve_numbers:
  assumes "map_of result k = Some (JArr (map JNum xs))"
  shows "curve result k = Some xs"
  using assms by (simp add: curve_def list_all_iff comp_def)

lemma uniform_pos:
  assumes "0 \<le> u" "0 < a" "a \<le> b"
  shows "0 < uniform a b u"
proof -
  have "0 \<le> binary64 (b - a)" using assms by (intro binary64_nonneg) simp
  then have "0 \<le> binary64 (binary64 (b - a) * u)" using assms(1) by (intro binary64_nonneg) simp
  then have "0 < a + binary64 (binary64 (b - a) * u)" using assms(2) by linarith
  then show ?thesis unfolding uniform_def by (rule binary64_pos)
qed

lemma freq_length: "length (py_range 100 2000 50) = 38"
  by (simp add: py_range_def)

lemma admittance_of_impedance:
  assumes "\<forall>z\<in>set zs. z \<noteq> 0"
  shows "for_each (\<lambda>imp. float_truediv 1.0 imp) zs = Inr (map (\<lambda>z. binary64 (1 / z)) zs)"
  using assms by (intro for_each_map) (simp add: float_truediv_def)

text \<open>The rounded reciprocal times the number is within \<open>2\<^sup>-\<^sup>5\<^sup>3\<close> of 1.\<close>

lemma reciprocal_error:
  assumes "0 < z"
  shows "\<bar>binary64 (1 / z) * z - 1\<bar> \<le> 1 / 2 ^ 53"
proof -
  have "\<bar>binary64 (1 / z) - 1 / z\<bar> \<le> 1 / z / 2 ^ 53"
    using binary64_error [of "1 / z"] assms by simp
  then have "\<bar>binary64 (1 / z) - 1 / z\<bar> * z \<le> 1 / z / 2 ^ 53 * z"
    using assms by (intro mult_right_mono) simp_all
  moreover have "\<bar>binary64 (1 / z) - 1 / z\<bar> * z = \<bar>binary64 (1 / z) * z - 1\<bar>"
  proof -
    have "\<bar>binary64 (1 / z) - 1 / z\<bar> * z = \<bar>(binary64 (1 / z) - 1 / z) * z\<bar>"
      using assms by (simp add: abs_mult)
    also have "(binary64 (1 / z) - 1 / z) * z = binary64 (1 / z) * z - 1"
      using assms by (simp add: algebra_simps)
    finally show ?thesis .
  qed
  moreover have "1 / z / 2 ^ 53 * z = 1 / 2 ^ 53" using assms by simp
  ultimately show ?thesis by simp
qed

lemma curves_invariant_reciprocal:
  assumes "\<forall>z\<in>set zs. 0 < z" and "length fs = length zs"
  shows "curves_invariant (1 / 2 ^ 53) fs zs (map (\<lambda>z. binary64 (1 / z)) zs)"
proof -
  have "\<forall>z\<in>set zs. z \<noteq> 0" using assms(1) by auto
  moreover have "\<forall>i<length zs. \<bar>binary64 (1 / zs ! i) * zs ! i - 1\<bar> \<le> 1 / 2 ^ 53"
    using assms(1) reciprocal_error by simp
  ultimately show ?thesis
    using assms(2) by (simp add: curves_invariant_def list_all_iff list_all2_conv_all_nth)
qed

lemma run_mock_simulation_curves:
  assumes "\<forall>i. uniform 0.5 1.5 (rnd (2 + i)) \<noteq> 0"
  shows "\<exists>mock. run_mock_simulation rnd profile_points material thickness = Inr mock
           \<and> curve mock ''freq'' = Some (map of_int (py_range 100 2000 50))
           \<and> curve mock ''impedance_curve''
               = Some (map (\<lambda>i. uniform 0.5 1.5 (rnd (2 + i))) [0..<38])
           \<and> curve mock ''admittance_curve''
               = Some (map (\<lambda>i. binary64 (1 / uniform 0.5 1.5 (rnd (2 + i)))) [0..<38])"
proof -
  let ?freq = "py_range 100 2000 50"
  let ?zs = "map (\<lambda>i. uniform 0.5 1.5 (rnd (2 + i))) [0..<length ?freq]"
  have nz: "\<forall>z\<in>set ?zs. z \<noteq> 0" using assms by auto
  let ?ys = "map (\<lambda>z. binary64 (1 / z)) ?zs"
  define mock where "mock =
     [(''f1'', JNum (py_round (binary64 (450 + uniform (- 30) 30 (rnd 0))) 2)),
      (''cutoff'', JNum (py_round (binary64
          (py_round (binary64 (450 + uniform (- 30) 30 (rnd 0))) 2 * binary64 2.2)) 2)),
      (''resistance'', JNum (py_round (uniform 20 80 (rnd 1)) 2)),
      (''freq'', JArr (map JNum (map of_int ?freq))),
      (''impedance_curve'', JArr (map JNum ?zs)),
      (''admittance_curve'', JArr (map JNum ?ys)),
      (''harmonicity'', JNum (py_round
          (uniform (binary64 0.7) (binary64 0.95) (rnd (2 + length ?freq))) 3)),
      (''brightness'', JNum (py_round
          (uniform (binary64 0.3) (binary64 0.8) (rnd (3 + length ?freq))) 3))]"
  have run: "run_mock_simulation rnd profile_points material thickness = Inr mock"
    unfolding run_mock_simulation_def Let_def admittance_of_impedance [OF nz] mock_def
    by (simp add: comp_def)
  have f: "curve mock ''freq'' = Some (map of_int ?freq)"
    unfolding mock_def by (rule curve_numbers) simp
  have z: "curve mock ''impedance_curve'' = Some ?zs"
    unfolding mock_def by (rule curve_numbers) simp
  have y: "curve mock ''admittance_curve'' = Some ?ys"
    unfolding mock_def by (rule curve_numbers) simp
  have ys: "map (\<lambda>z. binary64 (1 / z)) (map (\<lambda>i. uniform 0.5 1.5 (rnd (2 + i))) [0..<38])
              = map (\<lambda>i. binary64 (1 / uniform 0.5 1.5 (rnd (2 + i)))) [0..<38]"
    by (simp add: comp_def del: upt_rec_numeral)
  have z': "curve mock ''impedance_curve''
              = Some (map (\<lambda>i. uniform 0.5 1.5 (rnd (2 + i))) [0..<38])"
    using z unfolding freq_length .
  have y': "curve mock ''admittance_curve''
              = Some (map (\<lambda>i. binary64 (1 / uniform 0.5 1.5 (rnd (2 + i)))) [0..<38])"
    using y unfolding freq_length ys .
  show ?thesis by (intro exI [of _ mock] conjI run f z' y')
qed

lemma run_mock_simulation_invariant:
  assumes "unit_interval rnd"
  shows "\<exists>mock. run_mock_simulation rnd profile_points material thickness = Inr mock
           \<and> result_invariant (1 / 2 ^ 53) ''freq'' ''impedance_curve'' ''admittance_curve'' mock
           \<and> map_option length (curve mock ''freq'') = Some 38"
proof -
  have pos: "0 < uniform 0.5 1.5 (rnd (2 + i))" for i
    using assms by (intro uniform_pos) (simp_all add: unit_interval_def)
  then have "\<forall>i. uniform 0.5 1.5 (rnd (2 + i)) \<noteq> 0" by (simp add: less_imp_neq [THEN not_sym])
  from run_mock_simulation_curves [OF this, of profile_points material thickness]
  obtain mock where run: "run_mock_simulation rnd profile_points material thickness = Inr mock"
    and f: "curve mock ''freq'' = Some (map of_int (py_range 100 2000 50))"
    and z: "curve mock ''impedance_curve''
               = Some (map (\<lambda>i. uniform 0.5 1.5 (rnd (2 + i))) [0..<38])"
    and y: "curve mock ''admittance_curve''
               = Some (map (\<lambda>i. binary64 (1 / uniform 0.5 1.5 (rnd (2 + i)))) [0..<38])"
    by blast
  let ?zs = "map (\<lambda>i. uniform 0.5 1.5 (rnd (2 + i))) [0..<38]"
  have y': "curve mock ''admittance_curve'' = Some (map (\<lambda>z. binary64 (1 / z)) ?zs)"
    unfolding y by (simp add: comp_def)
  have "\<forall>z\<in>set ?zs. 0 < z" using pos by auto
  moreover have "length (map real_of_int (py_range 100 2000 50)) = length ?zs"
    by (simp add: freq_length)
  ultimately have "curves_invariant (1 / 2 ^ 53) (map real_of_int (py_range 100 2000 50)) ?zs
                     (map (\<lambda>z. binary64 (1 / z)) ?zs)"
    by (rule curves_invariant_reciprocal)
  then have "result_invariant (1 / 2 ^ 53) ''freq'' ''impedance_curve'' ''admittance_curve'' mock"
    unfolding result_invariant_def f z y' by simp
  moreover have "map_option length (curve mock ''freq'') = Some 38"
    unfolding f by (simp add: freq_length)
  ultimately show ?thesis using run by (intro exI [of _ mock] conjI)
qed

lemma length_linspace: "length (linspace a b n) = n"
  by (simp add: linspace_def)

lemma hd_linspace: "0 < n \<Longrightarrow> hd (linspace a b n) = a"
  by (simp add: linspace_def hd_map)

lemma run_impedance_simulation_result:
  assumes "run_impedance_simulation simulate bore_df temperature material_props freq_range = Inr result"
  shows "result =
           [(''frequency'', JArr (map JNum (linspace (fst freq_range) (snd freq_range) 500))),
            (''magnitude'', JArr (map JNum (map (\<lambda>x. \<bar>sin (2 * pi * x / 1500)\<bar> * 1000000)
                (linspace (fst freq_range) (snd freq_range) 500)))),
            (''phase'', JArr (map JNum (map (\<lambda>x. angle (sin (2 * pi * x / 1500)) * 180 / pi)
                (linspace (fst freq_range) (snd freq_range) 500))))]"
  using assms by (simp add: run_impedance_simulation_def Let_def split: sum.splits)

lemma run_impedance_simulation_fields:
  assumes "run_impedance_simulation simulate bore_df temperature material_props freq_range = Inr result"
  shows "map fst result = [''frequency'', ''magnitude'', ''phase'']
       \<and> map_option length (curve result ''frequency'') = Some 500
       \<and> map_option length (curve result ''magnitude'') = Some 500
       \<and> map_option length (curve result ''phase'') = Some 500
       \<and> map_of result ''admittance_curve'' = None"
proof -
  let ?f = "linspace (fst freq_range) (snd freq_range) 500"
  let ?m = "map (\<lambda>x. \<bar>sin (2 * pi * x / 1500)\<bar> * 1000000) ?f"
  let ?p = "map (\<lambda>x. angle (sin (2 * pi * x / 1500)) * 180 / pi) ?f"
  let ?r = "[(''frequency'', JArr (map JNum ?f)), (''magnitude'', JArr (map JNum ?m)),
             (''phase'', JArr (map JNum ?p))]"
  have r: "result = ?r" using assms by (rule run_impedance_simulation_result)
  have f: "curve ?r ''frequency'' = Some ?f" by (rule curve_numbers) simp
  have m: "curve ?r ''magnitude'' = Some ?m" by (rule curve_numbers) simp
  have p: "curve ?r ''phase'' = Some ?p" by (rule curve_numbers) simp
  show ?thesis unfolding r f m p by (simp add: length_linspace)
qed

text \<open>
  Claim C2, as the code has it. \<^verbatim>\<open>run_mock_simulation\<close>, whatever the generator draws,
  returns a result whose frequency axis, impedance curve and admittance curve have the
  same length (38), with no impedance zero; each admittance is the rounded reciprocal of
  its impedance, so their product is within \<open>2\<^sup>-\<^sup>5\<^sup>3\<close> of 1. Every result
  \<^verbatim>\<open>run_impedance_simulation\<close> returns has exactly the fields frequency, magnitude and
  phase, each an array of 500 numbers, and no admittance curve.
\<close>

theorem acoustic_result_invariants:
  assumes "unit_interval rnd"
    and "run_impedance_simulation simulate bore_df temperature material_props freq_range
           = Inr result"
  shows "(\<exists>mock. run_mock_simulation rnd profile_points material thickness = Inr mock
            \<and> result_invariant (1 / 2 ^ 53) ''freq'' ''impedance_curve'' ''admittance_curve'' mock
            \<and> map_option length (curve mock ''freq'') = Some 38)
       \<and> map fst result = [''frequency'', ''magnitude'', ''phase'']
       \<and> map_option length (curve result ''frequency'') = Some 500
       \<and> map_option length (curve result ''magnitude'') = Some 500
       \<and> map_option length (curve result ''phase'') = Some 500
       \<and> map_of result ''admittance_curve'' = None"
  by (rule conjI [OF run_mock_simulation_invariant [OF assms(1)]
        run_impedance_simulation_fields [OF assms(2)]])

theorem acoustic_result_invariants_witness:
  "unit_interval (\<lambda>k. 1 / 2)
   \<and> run_impedance_simulation engine_returns two_row_bore (JNum 22) JNull (200, 2000)
       = Inr [(''frequency'', JArr (map JNum (linspace 200 2000 500))),
              (''magnitude'', JArr (map JNum (map (\<lambda>x. \<bar>sin (2 * pi * x / 1500)\<bar> * 1000000)
                  (linspace 200 2000 500)))),
              (''phase'', JArr (map JNum (map (\<lambda>x. angle (sin (2 * pi * x / 1500)) * 180 / pi)
                  (linspace 200 2000 500))))]
   \<and> (\<exists>mock. run_mock_simulation (\<lambda>k. 1 / 2) JNull JNull JNull = Inr mock
          \<and> result_invariant (1 / 2 ^ 53) ''freq'' ''impedance_curve'' ''admittance_curve'' mock
          \<and> map_option length (curve mock ''freq'') = Some 38)"
proof -
  have u: "unit_interval (\<lambda>k. 1 / 2)" by (simp add: unit_interval_def)
  have r: "run_impedance_simulation engine_returns two_row_bore (JNum 22) JNull (200, 2000)
       = Inr [(''frequency'', JArr (map JNum (linspace 200 2000 500))),
              (''magnitude'', JArr (map JNum (map (\<lambda>x. \<bar>sin (2 * pi * x / 1500)\<bar> * 1000000)
                  (linspace 200 2000 500)))),
              (''phase'', JArr (map JNum (map (\<lambda>x. angle (sin (2 * pi * x / 1500)) * 180 / pi)
                  (linspace 200 2000 500))))]"
    by (simp add: run_impedance_simulation_def select_values_def engine_returns_def
        two_row_bore_def Let_def)
  show ?thesis
    by (intro conjI u r acoustic_result_invariants [OF u r, THEN conjunct1])
qed

text \<open>
  The claim as written fails on both adapters. What \<^verbatim>\<open>run_impedance_simulation\<close> returns
  has the keys frequency, magnitude and phase and no admittance curve, so the invariant
  does not hold of it, and over a range that starts at 0 its first magnitude is zero. In
  \<^verbatim>\<open>run_mock_simulation\<close> the draw 17/64 gives the impedance 49/64, whose rounded
  reciprocal times 49/64 is not 1, so the product is not exactly 1 there.
\<close>

lemma binary64_one: "binary64 1 = 1"
  using binary64_normal [of 0 1] by (simp add: pow2_def round_half_even_def Let_def)

lemma binary64_17_64: "binary64 (17 / 64) = 17 / 64"
  using binary64_normal [of "- 2" "17 / 64"] by (simp add: pow2_def round_half_even_def Let_def)

lemma binary64_49_64: "binary64 (49 / 64) = 49 / 64"
  using binary64_normal [of "- 1" "49 / 64"] by (simp add: pow2_def round_half_even_def Let_def)

lemma binary64_64_49: "binary64 (64 / 49) = 5882252574524729 / 2 ^ 52"
  using binary64_normal [of 0 "64 / 49"] by (simp add: pow2_def round_half_even_def Let_def)

lemma uniform_17_64: "uniform 0.5 1.5 (17 / 64) = 49 / 64"
proof -
  have "uniform 0.5 1.5 (17 / 64) = binary64 (1 / 2 + binary64 (binary64 1 * (17 / 64)))"
    by (simp add: uniform_def)
  also have "\<dots> = 49 / 64" by (simp add: binary64_one binary64_17_64 binary64_49_64)
  finally show ?thesis .
qed

text \<open>The product as the machine computes it is the float next below 1.\<close>

lemma rounded_product_49_64: "binary64 (binary64 (1 / (49 / 64)) * (49 / 64)) = 1 - 1 / 2 ^ 53"
proof -
  have a: "(1 :: real) / (49 / 64) = 64 / 49" by simp
  have b: "(5882252574524729 :: real) / 2 ^ 52 * (49 / 64)
             = 288230376151711721 / 288230376151711744"
    by simp
  have "binary64 (288230376151711721 / 288230376151711744) = 1 - 1 / 2 ^ 53"
    using binary64_normal [of "- 1" "288230376151711721 / 288230376151711744"]
    by (simp add: pow2_def round_half_even_def Let_def)
  then show ?thesis unfolding a binary64_64_49 b .
qed

lemma mock_17_64_not_exact:
  "returned_invariant 0 ''freq'' ''impedance_curve'' ''admittance_curve''
     (run_mock_simulation (\<lambda>k. 17 / 64) JNull JNull JNull) = Inr False"
proof -
  have u: "uniform 0.5 1.5 ((\<lambda>k. 17 / 64) (2 + i)) = 49 / 64" for i :: nat
    using uniform_17_64 by simp
  have r: "binary64 (1 / (49 / 64)) = 5882252574524729 / 2 ^ 52"
  proof -
    have a: "(1 :: real) / (49 / 64) = 64 / 49" by simp
    show ?thesis unfolding a by (rule binary64_64_49)
  qed
  have "\<forall>i. uniform 0.5 1.5 ((\<lambda>k. 17 / 64) (2 + i)) \<noteq> 0"
    unfolding u by simp
  from run_mock_simulation_curves [OF this, of JNull JNull JNull]
  obtain mock where run: "run_mock_simulation (\<lambda>k. 17 / 64) JNull JNull JNull = Inr mock"
    and f: "curve mock ''freq'' = Some (map of_int (py_range 100 2000 50))"
    and z: "curve mock ''impedance_curve'' = Some (map (\<lambda>i. 49 / 64) [0..<38])"
    and y: "curve mock ''admittance_curve''
              = Some (map (\<lambda>i. 5882252574524729 / 2 ^ 52) [0..<38])"
    unfolding u r by blast
  have "\<not> list_all2 (\<lambda>y z. \<bar>y * z - 1\<bar> \<le> (0 :: real))
            (map (\<lambda>i. 5882252574524729 / 2 ^ 52) [0..<38]) (map (\<lambda>i. 49 / 64) [0..<38])"
  proof
    assume a: "list_all2 (\<lambda>y z. \<bar>y * z - 1\<bar> \<le> (0 :: real))
            (map (\<lambda>i. 5882252574524729 / 2 ^ 52) [0..<38]) (map (\<lambda>i. 49 / 64) [0..<38])"
    have "0 < length (map (\<lambda>i :: nat. (5882252574524729 :: real) / 2 ^ 52) [0..<38])"
      by (simp del: upt_rec_numeral)
    from list_all2_nthD [OF a this] show False
      by (simp del: upt_rec_numeral)
  qed
  then have "\<not> curves_invariant 0 (map of_int (py_range 100 2000 50))
            (map (\<lambda>i. 49 / 64) [0..<38]) (map (\<lambda>i. 5882252574524729 / 2 ^ 52) [0..<38])"
    unfolding curves_invariant_def by blast
  then have "\<not> result_invariant 0 ''freq'' ''impedance_curve'' ''admittance_curve'' mock"
    unfolding result_invariant_def f z y by simp
  then show ?thesis by (simp only: returned_invariant_def run map_sum.simps)
qed

theorem acoustic_result_counterexample:
  "returned_keys (run_impedance_simulation engine_returns two_row_bore (JNum 22) JNull (200, 2000))
     = Inr [''frequency'', ''magnitude'', ''phase'']
   \<and> returned_invariant 0 ''frequency'' ''magnitude'' ''admittance_curve''
       (run_impedance_simulation engine_returns two_row_bore (JNum 22) JNull (200, 2000))
     = Inr False
   \<and> returned_first ''magnitude''
       (run_impedance_simulation engine_returns two_row_bore (JNum 22) JNull (0, 2000))
     = Inr (Some 0)
   \<and> returned_invariant 0 ''freq'' ''impedance_curve'' ''admittance_curve''
       (run_mock_simulation (\<lambda>k. 17 / 64) JNull JNull JNull)
     = Inr False"
proof -
  have run: "run_impedance_simulation engine_returns two_row_bore (JNum 22) JNull (lo, hi)
       = Inr [(''frequency'', JArr (map JNum (linspace lo hi 500))),
              (''magnitude'', JArr (map JNum (map (\<lambda>x. \<bar>sin (2 * pi * x / 1500)\<bar> * 1000000)
                  (linspace lo hi 500)))),
              (''phase'', JArr (map JNum (map (\<lambda>x. angle (sin (2 * pi * x / 1500)) * 180 / pi)
                  (linspace lo hi 500))))]" (is "_ = Inr (?r lo hi)") for lo hi
    by (simp add: run_impedance_simulation_def select_values_def engine_returns_def
        two_row_bore_def Let_def)
  have none: "curve (?r 200 2000) ''admittance_curve'' = None"
    by (simp add: curve_def)
  have mag: "curve (?r 0 2000) ''magnitude''
             = Some (map (\<lambda>x. \<bar>sin (2 * pi * x / 1500)\<bar> * 1000000) (linspace 0 2000 500))"
    by (rule curve_numbers) simp
  have first: "hd (map (\<lambda>x. \<bar>sin (2 * pi * x / 1500)\<bar> * 1000000) (linspace 0 2000 500)) = 0"
    by (simp add: hd_map hd_linspace linspace_def)
  have "\<not> result_invariant 0 ''frequency'' ''magnitude'' ''admittance_curve'' (?r 200 2000)"
    unfolding result_invariant_def none by (simp split: option.splits)
  then have inv: "returned_invariant 0 ''frequency'' ''magnitude'' ''admittance_curve''
       (run_impedance_simulation engine_returns two_row_bore (JNum 22) JNull (200, 2000))
     = Inr False"
    by (simp only: returned_invariant_def run map_sum.simps)
  have keys: "returned_keys
       (run_impedance_simulation engine_returns two_row_bore (JNum 22) JNull (200, 2000))
     = Inr [''frequency'', ''magnitude'', ''phase'']"
    unfolding returned_keys_def run by simp
  have fst0: "returned_first ''magnitude''
       (run_impedance_simulation engine_returns two_row_bore (JNum 22) JNull (0, 2000))
     = Inr (Some 0)"
    by (simp only: returned_first_def run map_sum.simps mag option.map first)
  from keys inv fst0 mock_17_64_not_exact show ?thesis by (intro conjI)
qed


subsection \<open>Optimizer cost\<close>

text \<open>
  With no target impedance, or with one given as a non-empty list as long as the simulated
  curve, the cost is the formula of the specification.
\<close>

lemma cost_function_formula:
  assumes run: "run_openwind_simulation
             \<lparr>geometry_entry_diam = entry, geometry_exit_diam = exit_d, geometry_length_mm = len\<rparr>
           = Inr result"
    and tf: "tf \<noteq> 0"
  shows "cost_function (BarrelOptimizer tf NoTarget) run_openwind_simulation [entry, exit_d, len]
           = Inr (0.7 * \<bar>result_f1 result - tf\<bar> / tf)"
    and "t \<noteq> [] \<Longrightarrow> length t = length (result_impedance_curve result) \<Longrightarrow>
         cost_function (BarrelOptimizer tf (ListTarget t)) run_openwind_simulation [entry, exit_d, len]
           = Inr (0.7 * \<bar>result_f1 result - tf\<bar> / tf
                  + 0.3 * (sum_list (map (\<lambda>(z, v). (z - v)\<^sup>2) (zip (result_impedance_curve result) t))
                           / real (length t)))"
proof -
  show "cost_function (BarrelOptimizer tf NoTarget) run_openwind_simulation [entry, exit_d, len]
           = Inr (0.7 * \<bar>result_f1 result - tf\<bar> / tf)"
    using run tf by (simp add: cost_function_def BarrelOptimizer_def target_truth_def)
next
  assume t: "t \<noteq> []" and len: "length t = length (result_impedance_curve result)"
  then have ne: "result_impedance_curve result \<noteq> []" by auto
  show "cost_function (BarrelOptimizer tf (ListTarget t)) run_openwind_simulation [entry, exit_d, len]
           = Inr (0.7 * \<bar>result_f1 result - tf\<bar> / tf
                  + 0.3 * (sum_list (map (\<lambda>(z, v). (z - v)\<^sup>2) (zip (result_impedance_curve result) t))
                           / real (length t)))"
    using run tf t len ne
    by (simp add: cost_function_def BarrelOptimizer_def target_truth_def broadcast_sub_def
        np_mean_def comp_def case_prod_unfold)
qed

lemma target_truth_array:
  "target_truth (ArrayTarget (v # w # vs)) = Inl ValueError"
  by (simp add: target_truth_def)

text \<open>
  Claim C6 at a target given as a numpy array, which is what the class's own impedance
  curves are: the truth test \<^verbatim>\<open>if self.target_impedance:\<close> raises ValueError for an
  array of more than one element, so no cost is returned.
\<close>

theorem cost_function_array_target:
  "cost_function (BarrelOptimizer 440 (ArrayTarget (replicate 100 1))) openwind_returns
     [14, 14, 66] = Inl ValueError"
proof -
  have "replicate 100 (1 :: real) = 1 # 1 # replicate 98 1"
    by (simp add: numeral_eq_Suc)
  then show ?thesis
    by (simp add: cost_function_def BarrelOptimizer_def openwind_returns_def target_truth_array)
qed


end
